theory Spec2Isabelle
  imports Complex_Main
begin

section \<open>JavaScript values, strings and the runtime\<close>

text \<open>
  The sources are JavaScript: \<^verbatim>\<open>validation.js\<close>, \<^verbatim>\<open>enhanced-task-model.js\<close>,
  \<^verbatim>\<open>task-repository.js\<close> and the simplified repository of the Day 2 guide.
  Every field and every argument is a dynamically typed value, so the model has one type
  of values. Strings are lists of 8-bit characters (the Latin-1 part of UTF-16). A finite
  number is a rational (every double is one), the two infinities (\<open>JInf True\<close> is
  \<open>+Infinity\<close>) and \<open>NaN\<close> are values of their own, and arithmetic is left to the
  runtime, which rounds as it does. A
  \<open>Date\<close> is its time value in milliseconds (\<open>None\<close> for an invalid date), an array is
  a reference into the heap, and a plain object literal such as a note is the list of its
  properties. Dates and object literals have no identity in the model: they compare by
  contents.
\<close>

type_synonym addr = nat

datatype jsval =
    JUndefined
  | JNull
  | JBool bool
  | JNum rat
  | JNaN
  | JInf bool
  | JStr string
  | JDate "int option"
  | JRef addr
  | JObj "(string \<times> jsval) list"

text \<open>
  What a method throws: a \<open>TypeError\<close> of the language, an \<open>Error\<close> with its message,
  or any other value, which only a listener of the repository throws.
\<close>

datatype js_error = TypeError | Error string | Thrown jsval

text \<open>Truthiness (\<^verbatim>\<open>!x\<close>, \<^verbatim>\<open>x || y\<close>, \<^verbatim>\<open>x ? a : b\<close>).\<close>

fun truthy :: "jsval \<Rightarrow> bool" where
  "truthy JUndefined = False"
| "truthy JNull = False"
| "truthy (JBool b) = b"
| "truthy (JNum r) = (r \<noteq> 0)"
| "truthy JNaN = False"
| "truthy (JInf b) = True"
| "truthy (JStr s) = (s \<noteq> [])"
| "truthy (JDate d) = True"
| "truthy (JRef a) = True"
| "truthy (JObj ps) = True"

text \<open>\<^verbatim>\<open>a || b\<close>\<close>

definition js_or :: "jsval \<Rightarrow> jsval \<Rightarrow> jsval" where
  "js_or a b = (if truthy a then a else b)"

text \<open>\<^verbatim>\<open>typeof v === 'string'\<close> and \<^verbatim>\<open>typeof v === 'number'\<close>\<close>

fun is_string :: "jsval \<Rightarrow> bool" where
  "is_string (JStr s) = True"
| "is_string v = False"

fun is_number :: "jsval \<Rightarrow> bool" where
  "is_number (JNum r) = True"
| "is_number JNaN = True"
| "is_number (JInf b) = True"
| "is_number v = False"

text \<open>\<^verbatim>\<open>a === b\<close>: \<open>NaN\<close> is not equal to itself.\<close>

definition strict_eq :: "jsval \<Rightarrow> jsval \<Rightarrow> bool" where
  "strict_eq a b = (a = b \<and> a \<noteq> JNaN)"

text \<open>
  \<^verbatim>\<open>String.prototype.trim\<close> removes white space and line terminators at both ends; in
  the Latin-1 range these are the code units 9 to 13, 32 and 160.
\<close>

definition is_ws :: "char \<Rightarrow> bool" where
  "is_ws c = ((of_char c :: nat) \<in> {9, 10, 11, 12, 13, 32, 160})"

definition trim :: "string \<Rightarrow> string" where
  "trim s = rev (dropWhile is_ws (rev (dropWhile is_ws s)))"

text \<open>\<^verbatim>\<open>String.prototype.toLowerCase\<close> on Latin-1: A-Z and the accented capitals.\<close>

definition lower_char :: "char \<Rightarrow> char" where
  "lower_char c =
     (let n = (of_char c :: nat)
      in if (65 \<le> n \<and> n \<le> 90) \<or> (192 \<le> n \<and> n \<le> 222 \<and> n \<noteq> 215)
         then char_of (n + 32) else c)"

definition toLowerCase :: "string \<Rightarrow> string" where
  "toLowerCase s = map lower_char s"

text \<open>\<^verbatim>\<open>text.replace(/c/g, r)\<close> for a one-character pattern.\<close>

definition replace_all :: "char \<Rightarrow> string \<Rightarrow> string \<Rightarrow> string" where
  "replace_all c r s = concat (map (\<lambda>x. if x = c then r else [x]) s)"

text \<open>
  \<^verbatim>\<open>/<[^>]*>/g.test(s)\<close>: some \<open><\<close> is followed, anywhere later, by a \<open>>\<close>. If
  any \<open><\<close> has a \<open>>\<close> after it, so has the first one. The regular expression is a
  literal evaluated at each call, so \<^verbatim>\<open>lastIndex\<close> starts at 0.
\<close>

definition has_html_tag :: "string \<Rightarrow> bool" where
  "has_html_tag s =
     (case dropWhile (\<lambda>c. c \<noteq> CHR ''<'') s of
        [] \<Rightarrow> False
      | c # r \<Rightarrow> CHR ''>'' \<in> set r)"

text \<open>A number in a template literal: \<^verbatim>\<open>`${this.maxLength}`\<close>.\<close>

fun show_nat :: "nat \<Rightarrow> string" where
  "show_nat n =
     (if n < 10 then [char_of (48 + n)]
      else show_nat (n div 10) @ [char_of (48 + n mod 10)])"

declare show_nat.simps [simp del]

text \<open>
  What the code takes from its environment: the clock (\<^verbatim>\<open>new Date()\<close>), the start of
  the local day (\<^verbatim>\<open>setHours(0, 0, 0, 0)\<close>), the \<open>Date\<close> constructor on a value that is
  not a \<open>Date\<close> (parsing is implementation-defined), \<^verbatim>\<open>toString\<close> on a value that is
  not a string, \<^verbatim>\<open>+\<close>, and the string
  \<^verbatim>\<open>generateId()\<close> builds from the clock and \<^verbatim>\<open>Math.random()\<close>. One runtime stands
  for the environment during one call: the clock does not move within a method.
\<close>

record runtime =
  now :: int
  day_start :: "int \<Rightarrow> int"
  parse_date :: "jsval \<Rightarrow> int option"
  to_string :: "jsval \<Rightarrow> string"
  plus :: "jsval \<Rightarrow> jsval \<Rightarrow> jsval"
  random_id :: string

text \<open>\<^verbatim>\<open>new Date(v)\<close>: the time value of the new date; a \<open>Date\<close> is copied.\<close>

definition new_Date :: "runtime \<Rightarrow> jsval \<Rightarrow> int option" where
  "new_Date rt v = (case v of JDate tv \<Rightarrow> tv | _ \<Rightarrow> parse_date rt v)"

text \<open>\<^verbatim>\<open>v.toString()\<close> for a value that has the method.\<close>

definition js_toString :: "runtime \<Rightarrow> jsval \<Rightarrow> string" where
  "js_toString rt v = (case v of JStr s \<Rightarrow> s | _ \<Rightarrow> to_string rt v)"

text \<open>A runtime for the concrete examples: the clock stands at 1000, nothing parses.\<close>

definition example_runtime :: runtime where
  "example_runtime =
     \<lparr> now = 1000, day_start = (\<lambda>t. 0), parse_date = (\<lambda>v. None),
       to_string = (\<lambda>v. ''''), plus = (\<lambda>a b. JNaN), random_id = ''task_1000_abc'' \<rparr>"

section \<open>validation.js\<close>

text \<open>
  A field validator returns \<^verbatim>\<open>{ isValid, errors, sanitizedValue }\<close>; the property
  \<^verbatim>\<open>sanitizedValue\<close> is absent from some of the failing results. The validators call
  \<^verbatim>\<open>trim\<close> on their argument, which throws a \<open>TypeError\<close> on a value that is neither
  a string nor caught by the guard before.
\<close>

record validity =
  isValid :: bool
  errors :: "string list"

record field_result = validity +
  sanitizedValue :: "jsval option"

record title_strategy =
  minLength :: nat
  maxLength :: nat

text \<open>\<^verbatim>\<open>sanitize(text)\<close>, the same in the title and the description strategy.\<close>

definition sanitize :: "string \<Rightarrow> string" where
  "sanitize text =
     replace_all (CHR 0x27) ''&#x27;''
       (replace_all (CHR 0x22) [CHR 0x22]
         (replace_all CHR ''>'' ''>''
           (replace_all CHR ''<'' ''<''
             (replace_all CHR ''&'' ''&amp;'' text))))"

definition title_validate :: "title_strategy \<Rightarrow> jsval \<Rightarrow> js_error + field_result" where
  "title_validate st title =
     (if title = JNull \<or> title = JUndefined \<or> title = JStr []
      then Inr \<lparr> isValid = False, errors = [''Title is required''], sanitizedValue = None \<rparr>
      else case title of
        JStr s \<Rightarrow>
          (let trimmed = trim s;
               errs =
                 (if length trimmed = 0
                  then [''Title cannot be empty or only whitespace''] else [])
                 @ (if length trimmed < minLength st
                    then [''Title must be at least '' @ show_nat (minLength st) @ '' character(s)'']
                    else [])
                 @ (if length trimmed > maxLength st
                    then [''Title must be no more than '' @ show_nat (maxLength st) @ '' characters'']
                    else [])
                 @ (if has_html_tag trimmed then [''Title cannot contain HTML tags''] else [])
           in Inr \<lparr> isValid = (length errs = 0), errors = errs,
                    sanitizedValue = Some (JStr (sanitize trimmed)) \<rparr>)
      | _ \<Rightarrow> Inl TypeError)"

definition description_validate :: "nat \<Rightarrow> jsval \<Rightarrow> js_error + field_result" where
  "description_validate maxLen description =
     (if description = JNull \<or> description = JUndefined \<or> description = JStr []
      then Inr \<lparr> isValid = True, errors = [], sanitizedValue = Some (JStr []) \<rparr>
      else case description of
        JStr s \<Rightarrow>
          (let trimmed = trim s;
               errs =
                 (if length trimmed > maxLen
                  then [''Description must be no more than '' @ show_nat maxLen @ '' characters'']
                  else [])
                 @ (if has_html_tag trimmed then [''Description cannot contain HTML tags''] else [])
           in Inr \<lparr> isValid = (length errs = 0), errors = errs,
                    sanitizedValue = Some (JStr (sanitize trimmed)) \<rparr>)
      | _ \<Rightarrow> Inl TypeError)"

text \<open>\<^verbatim>\<open>PriorityValidationStrategy\<close>: \<open>valid\<close> is the list its constructor sets.\<close>

definition priority_validate :: "string list \<Rightarrow> jsval \<Rightarrow> js_error + field_result" where
  "priority_validate valid priority =
     (if \<not> truthy priority
      then Inr \<lparr> isValid = True, errors = [], sanitizedValue = Some (JStr ''medium'') \<rparr>
      else case priority of
        JStr s \<Rightarrow>
          (let normalized = toLowerCase (trim s)
           in if normalized \<notin> set valid
              then Inr \<lparr> isValid = False,
                         errors = [''Priority must be one of: high, medium, low''],
                         sanitizedValue = None \<rparr>
              else Inr \<lparr> isValid = True, errors = [],
                         sanitizedValue = Some (JStr normalized) \<rparr>)
      | _ \<Rightarrow> Inl TypeError)"

definition dueDate_validate :: "runtime \<Rightarrow> jsval \<Rightarrow> field_result" where
  "dueDate_validate rt dueDate =
     (if \<not> truthy dueDate
      then \<lparr> isValid = True, errors = [], sanitizedValue = Some JNull \<rparr>
      else case new_Date rt dueDate of
        None \<Rightarrow> \<lparr> isValid = False, errors = [''Due date must be a valid date''],
                   sanitizedValue = None \<rparr>
      | Some d \<Rightarrow>
          if d < day_start rt (now rt)
          then \<lparr> isValid = False, errors = [''Due date must be today or in the future''],
                 sanitizedValue = None \<rparr>
          else \<lparr> isValid = True, errors = [], sanitizedValue = Some dueDate \<rparr>)"

text \<open>
  \<^verbatim>\<open>TaskValidator\<close>: its constructor builds the four strategies with their default
  parameters.
\<close>

record task_validator =
  v_title :: title_strategy
  v_description :: nat
  v_priority :: "string list"

definition TaskValidator :: task_validator where
  "TaskValidator =
     \<lparr> v_title = \<lparr> minLength = 1, maxLength = 100 \<rparr>,
       v_description = 500,
       v_priority = [''high'', ''medium'', ''low''] \<rparr>"

text \<open>
  The candidate of \<^verbatim>\<open>validateTask\<close> is a plain object: the list of its properties.
  \<^verbatim>\<open>task.title\<close> is \<open>undefined\<close> when the key is absent; \<^verbatim>\<open>'k' in task\<close> asks
  whether it is present.
\<close>

type_synonym js_object = "(string \<times> jsval) list"

definition get_prop :: "js_object \<Rightarrow> string \<Rightarrow> jsval" where
  "get_prop obj k = (case map_of obj k of None \<Rightarrow> JUndefined | Some v \<Rightarrow> v)"

definition has_prop :: "js_object \<Rightarrow> string \<Rightarrow> bool" where
  "has_prop obj k = (map_of obj k \<noteq> None)"

record task_result = validity +
  fieldResults :: "(string \<times> field_result) list"
  sanitizedData :: js_object

definition no_result :: task_result where
  "no_result = \<lparr> isValid = True, errors = [], fieldResults = [], sanitizedData = [] \<rparr>"

text \<open>
  The block \<^verbatim>\<open>validateTask\<close> repeats for each field: store the field's result, then
  either push its errors, prefixed by the field's name, or store its sanitized value.
  \<open>isValid\<close> is \<^verbatim>\<open>errors.length === 0\<close>, computed at the end in the source and kept
  up to date here.
\<close>

definition field_checked :: "string \<Rightarrow> field_result \<Rightarrow> task_result \<Rightarrow> task_result" where
  "field_checked k r acc =
     (let errs = (if \<not> isValid r then errors acc @ map (\<lambda>e. k @ '': '' @ e) (errors r)
                  else errors acc)
      in \<lparr> isValid = (length errs = 0), errors = errs,
           fieldResults = fieldResults acc @ [(k, r)],
           sanitizedData =
             (if \<not> isValid r then sanitizedData acc
              else sanitizedData acc
                   @ [(k, case sanitizedValue r of None \<Rightarrow> JUndefined | Some v \<Rightarrow> v)]) \<rparr>)"

text \<open>The \<^verbatim>\<open>else\<close> branch of an optional field: the default, and no field result.\<close>

definition field_absent :: "string \<Rightarrow> jsval \<Rightarrow> task_result \<Rightarrow> task_result" where
  "field_absent k v acc = acc\<lparr> sanitizedData := sanitizedData acc @ [(k, v)] \<rparr>"

definition validateTask :: "runtime \<Rightarrow> task_validator \<Rightarrow> js_object \<Rightarrow> js_error + task_result" where
  "validateTask rt tv task =
     (case title_validate (v_title tv) (get_prop task ''title'') of
        Inl e \<Rightarrow> Inl e
      | Inr r1 \<Rightarrow>
          (let a1 = field_checked ''title'' r1 no_result
           in case (if has_prop task ''description''
                    then (case description_validate (v_description tv) (get_prop task ''description'') of
                            Inl e \<Rightarrow> Inl e
                          | Inr r2 \<Rightarrow> Inr (field_checked ''description'' r2 a1))
                    else Inr (field_absent ''description'' (JStr []) a1)) of
                Inl e \<Rightarrow> Inl e
              | Inr a2 \<Rightarrow>
                  (case (if has_prop task ''priority''
                         then (case priority_validate (v_priority tv) (get_prop task ''priority'') of
                                 Inl e \<Rightarrow> Inl e
                               | Inr r3 \<Rightarrow> Inr (field_checked ''priority'' r3 a2))
                         else Inr (field_absent ''priority'' (JStr ''medium'') a2)) of
                     Inl e \<Rightarrow> Inl e
                   | Inr a3 \<Rightarrow>
                       Inr (if has_prop task ''dueDate''
                            then field_checked ''dueDate''
                                   (dueDate_validate rt (get_prop task ''dueDate'')) a3
                            else field_absent ''dueDate'' JNull a3))))"

text \<open>\<^verbatim>\<open>validateTaskUpdate\<close>: the spread copies the properties.\<close>

definition validateTaskUpdate :: "runtime \<Rightarrow> task_validator \<Rightarrow> js_object \<Rightarrow> js_error + task_result" where
  "validateTaskUpdate rt tv updates = (let mockTask = updates in validateTask rt tv mockTask)"

section \<open>enhanced-task-model.js\<close>

subsection \<open>Arrays\<close>

text \<open>
  The three collections of a task are arrays, which JavaScript shares by reference: the
  getters and \<^verbatim>\<open>toJSON\<close> copy them, the tag methods change \<^verbatim>\<open>this._tags\<close> in place.
  The heap holds the arrays; an address is an index into it, and a new array gets the
  next free one. The elements of an array are values: a note is an object literal that no
  method changes after it is built.
\<close>

type_synonym heap = "jsval list list"

definition alloc :: "heap \<Rightarrow> jsval list \<Rightarrow> addr \<times> heap" where
  "alloc h xs = (length h, h @ [xs])"

text \<open>The elements of the array at an address; no array lives beyond the heap.\<close>

definition arr :: "heap \<Rightarrow> addr \<Rightarrow> jsval list" where
  "arr h a = (if a < length h then h ! a else [])"

text \<open>\<^verbatim>\<open>[...v]\<close>: arrays and strings are iterable, the other values of the model are not.\<close>

definition spread :: "heap \<Rightarrow> jsval \<Rightarrow> js_error + jsval list" where
  "spread h v =
     (case v of
        JRef a \<Rightarrow> Inr (arr h a)
      | JStr s \<Rightarrow> Inr (map (\<lambda>c. JStr [c]) s)
      | _ \<Rightarrow> Inl TypeError)"

text \<open>\<^verbatim>\<open>xs.includes(v)\<close> compares by SameValueZero, under which \<open>NaN\<close> equals itself.\<close>

definition js_includes :: "jsval list \<Rightarrow> jsval \<Rightarrow> bool" where
  "js_includes xs v = (v \<in> set xs)"

text \<open>\<^verbatim>\<open>xs.indexOf(v)\<close> compares by \<^verbatim>\<open>===\<close>; \<open>None\<close> stands for -1.\<close>

fun indexOf :: "jsval list \<Rightarrow> jsval \<Rightarrow> nat option" where
  "indexOf [] v = None"
| "indexOf (x # xs) v =
     (if strict_eq x v then Some 0 else map_option Suc (indexOf xs v))"

text \<open>\<^verbatim>\<open>xs.splice(i, 1)\<close>\<close>

definition splice1 :: "jsval list \<Rightarrow> nat \<Rightarrow> jsval list" where
  "splice1 xs i = take i xs @ drop (Suc i) xs"

text \<open>
  \<^verbatim>\<open>notes.findIndex(note => note.id === noteId)\<close>: reading \<^verbatim>\<open>.id\<close> of \<open>null\<close> or
  \<open>undefined\<close> throws, of any other value that is not an object literal it is
  \<open>undefined\<close>. The search stops at the first match.
\<close>

definition note_id :: "jsval \<Rightarrow> js_error + jsval" where
  "note_id note =
     (case note of
        JObj ps \<Rightarrow> Inr (get_prop ps ''id'')
      | JNull \<Rightarrow> Inl TypeError
      | JUndefined \<Rightarrow> Inl TypeError
      | _ \<Rightarrow> Inr JUndefined)"

fun findIndex_id :: "jsval list \<Rightarrow> jsval \<Rightarrow> js_error + nat option" where
  "findIndex_id [] noteId = Inr None"
| "findIndex_id (note # notes) noteId =
     (case note_id note of
        Inl e \<Rightarrow> Inl e
      | Inr i \<Rightarrow>
          if strict_eq i noteId then Inr (Some 0)
          else map_sum (\<lambda>e. e) (map_option Suc) (findIndex_id notes noteId))"

subsection \<open>The task\<close>

text \<open>
  The fields of a \<^verbatim>\<open>Task\<close>. \<open>task_id\<close> is \<^verbatim>\<open>id\<close>; \<open>p_tags\<close>, \<open>p_notes\<close> and
  \<open>p_dependencies\<close> are the private \<^verbatim>\<open>_tags\<close>, \<^verbatim>\<open>_notes\<close> and \<^verbatim>\<open>_dependencies\<close>,
  which the class only ever sets to an array.
\<close>

record task =
  task_id :: jsval
  title :: jsval
  description :: jsval
  userId :: jsval
  assignedTo :: jsval
  completed :: jsval
  status :: jsval
  completedAt :: jsval
  priority :: jsval
  category :: jsval
  createdAt :: jsval
  updatedAt :: jsval
  dueDate :: jsval
  estimatedHours :: jsval
  actualHours :: jsval
  p_tags :: addr
  p_notes :: addr
  p_dependencies :: addr
  projectId :: jsval
  parentTaskId :: jsval
  recurrence :: jsval

text \<open>The \<^verbatim>\<open>options\<close> argument of the constructor; an absent key is \<open>undefined\<close>.\<close>

record task_options =
  o_assignedTo :: jsval
  o_priority :: jsval
  o_category :: jsval
  o_dueDate :: jsval
  o_estimatedHours :: jsval
  o_actualHours :: jsval
  o_projectId :: jsval
  o_parentTaskId :: jsval
  o_recurrence :: jsval

definition no_options :: task_options where
  "no_options =
     \<lparr> o_assignedTo = JUndefined, o_priority = JUndefined, o_category = JUndefined,
       o_dueDate = JUndefined, o_estimatedHours = JUndefined, o_actualHours = JUndefined,
       o_projectId = JUndefined, o_parentTaskId = JUndefined, o_recurrence = JUndefined \<rparr>"

text \<open>The characters of a string value; applied only where the source has checked the type.\<close>

definition text_of :: "jsval \<Rightarrow> string" where
  "text_of v = (case v of JStr s \<Rightarrow> s | _ \<Rightarrow> [])"

text \<open>
  The guard the constructor and five mutators share:
  \<^verbatim>\<open>!x || typeof x !== 'string' || x.trim() === ''\<close>.
\<close>

definition blank :: "jsval \<Rightarrow> bool" where
  "blank x = (\<not> (truthy x \<and> is_string x \<and> trim (text_of x) \<noteq> []))"

text \<open>\<^verbatim>\<open>v.trim()\<close> on a value that may not be a string.\<close>

definition js_trim :: "jsval \<Rightarrow> js_error + jsval" where
  "js_trim v = (case v of JStr s \<Rightarrow> Inr (JStr (trim s)) | _ \<Rightarrow> Inl TypeError)"

text \<open>
  \<^verbatim>\<open>a + b\<close>: the runtime's, for numbers (rounded, possibly infinite) as for strings.
\<close>

definition js_plus :: "runtime \<Rightarrow> jsval \<Rightarrow> jsval \<Rightarrow> jsval" where
  "js_plus rt a b = plus rt a b"

text \<open>\<^verbatim>\<open>hours < 0\<close> on a number.\<close>

definition negative :: "jsval \<Rightarrow> bool" where
  "negative v = (case v of JNum r \<Rightarrow> r < 0 | JInf b \<Rightarrow> \<not> b | _ \<Rightarrow> False)"

definition validatePriority :: "jsval \<Rightarrow> js_error + jsval" where
  "validatePriority p =
     (if \<not> js_includes [JStr ''low'', JStr ''medium'', JStr ''high'', JStr ''urgent''] p
      then Inl (Error ''Invalid priority'')
      else Inr p)"

definition normalizeCategory :: "runtime \<Rightarrow> jsval \<Rightarrow> jsval" where
  "normalizeCategory rt c =
     JStr (toLowerCase (trim (js_toString rt (js_or c (JStr ''general'')))))"

text \<open>\<^verbatim>\<open>new Date()\<close>\<close>

definition date_now :: "runtime \<Rightarrow> jsval" where
  "date_now rt = JDate (Some (now rt))"

text \<open>
  The constructor, on the heap it allocates its three arrays in. The default of the
  \<^verbatim>\<open>description\<close> parameter and the \<^verbatim>\<open>||\<close> of line 21 both turn \<open>undefined\<close> into
  the empty string.
\<close>

definition Task_new ::
  "runtime \<Rightarrow> heap \<Rightarrow> jsval \<Rightarrow> jsval \<Rightarrow> jsval \<Rightarrow> task_options \<Rightarrow> js_error + heap \<times> task" where
  "Task_new rt h ttl descr uid options =
     (if blank ttl then Inl (Error ''Task title is required'')
      else if blank uid then Inl (Error ''User ID is required'')
      else case js_trim (js_or descr (JStr [])) of
        Inl e \<Rightarrow> Inl e
      | Inr d \<Rightarrow>
          (case validatePriority (js_or (o_priority options) (JStr ''medium'')) of
             Inl e \<Rightarrow> Inl e
           | Inr p \<Rightarrow>
               (let (a1, h1) = alloc h [];
                    (a2, h2) = alloc h1 [];
                    (a3, h3) = alloc h2 []
                in Inr (h3,
                     \<lparr> task_id = JStr (random_id rt),
                       title = JStr (trim (text_of ttl)),
                       description = d,
                       userId = JStr (trim (text_of uid)),
                       assignedTo = js_or (o_assignedTo options) uid,
                       completed = JBool False,
                       status = JStr ''pending'',
                       completedAt = JNull,
                       priority = p,
                       category = normalizeCategory rt (js_or (o_category options) (JStr ''general'')),
                       createdAt = date_now rt,
                       updatedAt = date_now rt,
                       dueDate = (if truthy (o_dueDate options)
                                  then JDate (new_Date rt (o_dueDate options)) else JNull),
                       estimatedHours = js_or (o_estimatedHours options) JNull,
                       actualHours = js_or (o_actualHours options) JNull,
                       p_tags = a1,
                       p_notes = a2,
                       p_dependencies = a3,
                       projectId = js_or (o_projectId options) JNull,
                       parentTaskId = js_or (o_parentTaskId options) JNull,
                       recurrence = js_or (o_recurrence options) JNull \<rparr>))))"

subsection \<open>Accessors\<close>

text \<open>
  \<^verbatim>\<open>get tags()\<close>, \<^verbatim>\<open>get notes()\<close>, \<^verbatim>\<open>get dependencies()\<close>: a new array with the
  elements of the private one. The setters store a copy of an array and an empty array
  for anything else.
\<close>

definition get_tags :: "heap \<Rightarrow> task \<Rightarrow> addr \<times> heap" where
  "get_tags h t = alloc h (arr h (p_tags t))"

definition get_notes :: "heap \<Rightarrow> task \<Rightarrow> addr \<times> heap" where
  "get_notes h t = alloc h (arr h (p_notes t))"

definition get_dependencies :: "heap \<Rightarrow> task \<Rightarrow> addr \<times> heap" where
  "get_dependencies h t = alloc h (arr h (p_dependencies t))"

definition array_or_empty :: "heap \<Rightarrow> jsval \<Rightarrow> jsval list" where
  "array_or_empty h v = (case v of JRef a \<Rightarrow> arr h a | _ \<Rightarrow> [])"

definition set_tags :: "jsval \<Rightarrow> heap \<times> task \<Rightarrow> heap \<times> task" where
  "set_tags v = (\<lambda>(h, t). let (a, h') = alloc h (array_or_empty h v) in (h', t\<lparr> p_tags := a \<rparr>))"

definition set_notes :: "jsval \<Rightarrow> heap \<times> task \<Rightarrow> heap \<times> task" where
  "set_notes v = (\<lambda>(h, t). let (a, h') = alloc h (array_or_empty h v) in (h', t\<lparr> p_notes := a \<rparr>))"

definition set_dependencies :: "jsval \<Rightarrow> heap \<times> task \<Rightarrow> heap \<times> task" where
  "set_dependencies v =
     (\<lambda>(h, t). let (a, h') = alloc h (array_or_empty h v) in (h', t\<lparr> p_dependencies := a \<rparr>))"

subsection \<open>Mutators\<close>

text \<open>
  A mutator takes the heap and the task and returns them changed, or the error it
  throws. In every method each \<^verbatim>\<open>throw\<close> stands before the first assignment, so
  after an error the task is as it was before the call. \<open>touch\<close> is
  \<^verbatim>\<open>this.updatedAt = new Date()\<close>.
\<close>

definition touch :: "runtime \<Rightarrow> task \<Rightarrow> task" where
  "touch rt t = t\<lparr> updatedAt := date_now rt \<rparr>"

definition updateTitle :: "runtime \<Rightarrow> jsval \<Rightarrow> heap \<times> task \<Rightarrow> js_error + heap \<times> task" where
  "updateTitle rt newTitle = (\<lambda>(h, t).
     if blank newTitle then Inl (Error ''Task title cannot be empty'')
     else Inr (h, touch rt (t\<lparr> title := JStr (trim (text_of newTitle)) \<rparr>)))"

definition updateDescription :: "runtime \<Rightarrow> jsval \<Rightarrow> heap \<times> task \<Rightarrow> js_error + heap \<times> task" where
  "updateDescription rt newDescription = (\<lambda>(h, t).
     Inr (h, touch rt
       (t\<lparr> description := JStr (trim (js_toString rt (js_or newDescription (JStr [])))) \<rparr>)))"

definition updatePriority :: "runtime \<Rightarrow> jsval \<Rightarrow> heap \<times> task \<Rightarrow> js_error + heap \<times> task" where
  "updatePriority rt newPriority = (\<lambda>(h, t).
     case validatePriority newPriority of
       Inl e \<Rightarrow> Inl e
     | Inr p \<Rightarrow> Inr (h, touch rt (t\<lparr> priority := p \<rparr>)))"

definition markComplete :: "runtime \<Rightarrow> task \<Rightarrow> task" where
  "markComplete rt t =
     (if \<not> truthy (completed t)
      then t\<lparr> completed := JBool True, status := JStr ''completed'',
              completedAt := date_now rt, updatedAt := date_now rt \<rparr>
      else t)"

definition markIncomplete :: "runtime \<Rightarrow> task \<Rightarrow> task" where
  "markIncomplete rt t =
     (if truthy (completed t)
      then t\<lparr> completed := JBool False, status := JStr ''pending'',
              completedAt := JNull, updatedAt := date_now rt \<rparr>
      else t)"

definition assignTo :: "runtime \<Rightarrow> jsval \<Rightarrow> heap \<times> task \<Rightarrow> js_error + heap \<times> task" where
  "assignTo rt uid = (\<lambda>(h, t).
     if blank uid then Inl (Error ''Valid user ID is required'')
     else Inr (h, touch rt (t\<lparr> assignedTo := JStr (trim (text_of uid)) \<rparr>)))"

definition reassignToOwner :: "runtime \<Rightarrow> task \<Rightarrow> task" where
  "reassignToOwner rt t = touch rt (t\<lparr> assignedTo := userId t \<rparr>)"

definition setCategory :: "runtime \<Rightarrow> jsval \<Rightarrow> heap \<times> task \<Rightarrow> js_error + heap \<times> task" where
  "setCategory rt c = (\<lambda>(h, t).
     if blank c then Inl (Error ''Category must be a non-empty string'')
     else Inr (h, touch rt (t\<lparr> category := normalizeCategory rt c \<rparr>)))"

definition addTag :: "runtime \<Rightarrow> jsval \<Rightarrow> heap \<times> task \<Rightarrow> js_error + heap \<times> task" where
  "addTag rt tag = (\<lambda>(h, t).
     if blank tag then Inl (Error ''Tag must be a non-empty string'')
     else let normalizedTag = JStr (toLowerCase (trim (text_of tag)))
          in if \<not> js_includes (arr h (p_tags t)) normalizedTag
             then Inr (h[p_tags t := arr h (p_tags t) @ [normalizedTag]], touch rt t)
             else Inr (h, t))"

text \<open>\<^verbatim>\<open>tag.toString()\<close> throws on \<open>null\<close> and \<open>undefined\<close>.\<close>

definition normalized_tag :: "runtime \<Rightarrow> jsval \<Rightarrow> js_error + jsval" where
  "normalized_tag rt tag =
     (if tag = JNull \<or> tag = JUndefined then Inl TypeError
      else Inr (JStr (toLowerCase (trim (js_toString rt tag)))))"

definition removeTag :: "runtime \<Rightarrow> jsval \<Rightarrow> heap \<times> task \<Rightarrow> js_error + heap \<times> task" where
  "removeTag rt tag = (\<lambda>(h, t).
     case normalized_tag rt tag of
       Inl e \<Rightarrow> Inl e
     | Inr normalizedTag \<Rightarrow>
         (case indexOf (arr h (p_tags t)) normalizedTag of
            Some i \<Rightarrow> Inr (h[p_tags t := splice1 (arr h (p_tags t)) i], touch rt t)
          | None \<Rightarrow> Inr (h, t)))"

definition clearTags :: "runtime \<Rightarrow> heap \<times> task \<Rightarrow> heap \<times> task" where
  "clearTags rt = (\<lambda>(h, t). let (a, h') = alloc h [] in (h', touch rt (t\<lparr> p_tags := a \<rparr>)))"

definition hasTag :: "runtime \<Rightarrow> jsval \<Rightarrow> heap \<Rightarrow> task \<Rightarrow> js_error + bool" where
  "hasTag rt tag h t =
     (case normalized_tag rt tag of
        Inl e \<Rightarrow> Inl e
      | Inr normalizedTag \<Rightarrow> Inr (js_includes (arr h (p_tags t)) normalizedTag))"

definition setDueDate :: "runtime \<Rightarrow> jsval \<Rightarrow> heap \<times> task \<Rightarrow> js_error + heap \<times> task" where
  "setDueDate rt d = (\<lambda>(h, t).
     if truthy d
     then (case new_Date rt d of
             None \<Rightarrow> Inl (Error ''Invalid due date'')
           | Some tv \<Rightarrow> Inr (h, touch rt (t\<lparr> dueDate := JDate (Some tv) \<rparr>)))
     else Inr (h, touch rt (t\<lparr> dueDate := JNull \<rparr>)))"

definition clearDueDate :: "runtime \<Rightarrow> task \<Rightarrow> task" where
  "clearDueDate rt t = touch rt (t\<lparr> dueDate := JNull \<rparr>)"

text \<open>\<^verbatim>\<open>hours !== null && (typeof hours !== 'number' || hours < 0)\<close>\<close>

definition bad_hours :: "jsval \<Rightarrow> bool" where
  "bad_hours hours = (\<not> (is_number hours \<and> \<not> negative hours))"

definition setEstimatedHours :: "runtime \<Rightarrow> jsval \<Rightarrow> heap \<times> task \<Rightarrow> js_error + heap \<times> task" where
  "setEstimatedHours rt hours = (\<lambda>(h, t).
     if hours \<noteq> JNull \<and> bad_hours hours then Inl (Error ''Hours must be a positive number'')
     else Inr (h, touch rt (t\<lparr> estimatedHours := hours \<rparr>)))"

definition setActualHours :: "runtime \<Rightarrow> jsval \<Rightarrow> heap \<times> task \<Rightarrow> js_error + heap \<times> task" where
  "setActualHours rt hours = (\<lambda>(h, t).
     if hours \<noteq> JNull \<and> bad_hours hours then Inl (Error ''Hours must be a positive number'')
     else Inr (h, touch rt (t\<lparr> actualHours := hours \<rparr>)))"

definition addTimeSpent :: "runtime \<Rightarrow> jsval \<Rightarrow> heap \<times> task \<Rightarrow> js_error + heap \<times> task" where
  "addTimeSpent rt hours = (\<lambda>(h, t).
     if bad_hours hours then Inl (Error ''Hours must be a positive number'')
     else Inr (h, touch rt
            (t\<lparr> actualHours := js_plus rt (js_or (actualHours t) (JNum 0)) hours \<rparr>)))"

definition validStatuses :: "jsval list" where
  "validStatuses =
     [JStr ''pending'', JStr ''in-progress'', JStr ''completed'', JStr ''cancelled'',
      JStr ''on-hold'']"

text \<open>
  \<^verbatim>\<open>setStatus\<close>: the status is assigned first, then \<^verbatim>\<open>markComplete\<close> or
  \<^verbatim>\<open>markIncomplete\<close> runs on the task with the new status.
\<close>

definition setStatus :: "runtime \<Rightarrow> jsval \<Rightarrow> heap \<times> task \<Rightarrow> js_error + heap \<times> task" where
  "setStatus rt st = (\<lambda>(h, t).
     if \<not> js_includes validStatuses st then Inl (Error ''Invalid status'')
     else let t1 = t\<lparr> status := st \<rparr>;
              t2 = (if strict_eq st (JStr ''completed'') \<and> \<not> truthy (completed t1)
                    then markComplete rt t1
                    else if \<not> strict_eq st (JStr ''completed'') \<and> truthy (completed t1)
                    then markIncomplete rt t1
                    else t1)
          in Inr (h, touch rt t2))"

text \<open>
  \<^verbatim>\<open>addNote\<close>, \<^verbatim>\<open>removeNote\<close>, \<^verbatim>\<open>addDependency\<close> and \<^verbatim>\<open>removeDependency\<close> go
  through the getters \<^verbatim>\<open>this.notes\<close> and \<^verbatim>\<open>this.dependencies\<close>: each use of a getter
  is a new copy, and \<^verbatim>\<open>push\<close> and \<^verbatim>\<open>splice\<close> change that copy. An absent \<open>author\<close>
  is the owner.
\<close>

definition addNote :: "runtime \<Rightarrow> jsval \<Rightarrow> jsval \<Rightarrow> heap \<times> task \<Rightarrow> js_error + heap \<times> task" where
  "addNote rt content author = (\<lambda>(h, t).
     if blank content then Inl (Error ''Note must be a non-empty string'')
     else let note = JObj [(''id'', JStr (random_id rt)),
                           (''content'', JStr (trim (text_of content))),
                           (''author'', if author = JUndefined then userId t else author),
                           (''createdAt'', date_now rt)];
              (c, h1) = get_notes h t
          in Inr (h1[c := arr h1 c @ [note]], touch rt t))"

definition removeNote :: "runtime \<Rightarrow> jsval \<Rightarrow> heap \<times> task \<Rightarrow> js_error + heap \<times> task" where
  "removeNote rt noteId = (\<lambda>(h, t).
     let (c1, h1) = get_notes h t
     in case findIndex_id (arr h1 c1) noteId of
          Inl e \<Rightarrow> Inl e
        | Inr (Some i) \<Rightarrow>
            (let (c2, h2) = get_notes h1 t
             in Inr (h2[c2 := splice1 (arr h2 c2) i], touch rt t))
        | Inr None \<Rightarrow> Inr (h1, t))"

definition addDependency :: "runtime \<Rightarrow> jsval \<Rightarrow> heap \<times> task \<Rightarrow> js_error + heap \<times> task" where
  "addDependency rt taskId = (\<lambda>(h, t).
     if strict_eq taskId (task_id t) then Inl (Error ''Task cannot depend on itself'')
     else let (c1, h1) = get_dependencies h t
          in if \<not> js_includes (arr h1 c1) taskId
             then (let (c2, h2) = get_dependencies h1 t
                   in Inr (h2[c2 := arr h2 c2 @ [taskId]], touch rt t))
             else Inr (h1, t))"

definition removeDependency :: "runtime \<Rightarrow> jsval \<Rightarrow> heap \<times> task \<Rightarrow> js_error + heap \<times> task" where
  "removeDependency rt taskId = (\<lambda>(h, t).
     let (c1, h1) = get_dependencies h t
     in case indexOf (arr h1 c1) taskId of
          Some i \<Rightarrow>
            (let (c2, h2) = get_dependencies h1 t
             in Inr (h2[c2 := splice1 (arr h2 c2) i], touch rt t))
        | None \<Rightarrow> Inr (h1, t))"

definition hasDependency :: "jsval \<Rightarrow> heap \<Rightarrow> task \<Rightarrow> bool \<times> heap" where
  "hasDependency taskId h t =
     (let (c, h1) = get_dependencies h t in (js_includes (arr h1 c) taskId, h1))"


subsection \<open>The mutators as calls\<close>

text \<open>
  One constructor per public method that changes a task, and per setter; \<open>invoke\<close> runs
  the call.
\<close>

datatype call =
    UpdateTitle jsval
  | UpdateDescription jsval
  | UpdatePriority jsval
  | MarkComplete
  | MarkIncomplete
  | AssignTo jsval
  | ReassignToOwner
  | SetCategory jsval
  | AddTag jsval
  | RemoveTag jsval
  | ClearTags
  | SetDueDate jsval
  | ClearDueDate
  | SetEstimatedHours jsval
  | SetActualHours jsval
  | AddTimeSpent jsval
  | SetStatus jsval
  | AddNote jsval jsval
  | RemoveNote jsval
  | AddDependency jsval
  | RemoveDependency jsval
  | SetTags jsval
  | SetNotes jsval
  | SetDependencies jsval

fun invoke :: "runtime \<Rightarrow> call \<Rightarrow> heap \<times> task \<Rightarrow> js_error + heap \<times> task" where
  "invoke rt (UpdateTitle v) s = updateTitle rt v s"
| "invoke rt (UpdateDescription v) s = updateDescription rt v s"
| "invoke rt (UpdatePriority v) s = updatePriority rt v s"
| "invoke rt MarkComplete s = Inr (fst s, markComplete rt (snd s))"
| "invoke rt MarkIncomplete s = Inr (fst s, markIncomplete rt (snd s))"
| "invoke rt (AssignTo v) s = assignTo rt v s"
| "invoke rt ReassignToOwner s = Inr (fst s, reassignToOwner rt (snd s))"
| "invoke rt (SetCategory v) s = setCategory rt v s"
| "invoke rt (AddTag v) s = addTag rt v s"
| "invoke rt (RemoveTag v) s = removeTag rt v s"
| "invoke rt ClearTags s = Inr (clearTags rt s)"
| "invoke rt (SetDueDate v) s = setDueDate rt v s"
| "invoke rt ClearDueDate s = Inr (fst s, clearDueDate rt (snd s))"
| "invoke rt (SetEstimatedHours v) s = setEstimatedHours rt v s"
| "invoke rt (SetActualHours v) s = setActualHours rt v s"
| "invoke rt (AddTimeSpent v) s = addTimeSpent rt v s"
| "invoke rt (SetStatus v) s = setStatus rt v s"
| "invoke rt (AddNote v w) s = addNote rt v w s"
| "invoke rt (RemoveNote v) s = removeNote rt v s"
| "invoke rt (AddDependency v) s = addDependency rt v s"
| "invoke rt (RemoveDependency v) s = removeDependency rt v s"
| "invoke rt (SetTags v) s = Inr (set_tags v s)"
| "invoke rt (SetNotes v) s = Inr (set_notes v s)"
| "invoke rt (SetDependencies v) s = Inr (set_dependencies v s)"

subsection \<open>Serialization\<close>

text \<open>
  The object \<^verbatim>\<open>toJSON\<close> returns and \<^verbatim>\<open>fromJSON\<close> reads. \<^verbatim>\<open>toJSON\<close> keeps the
  dates as \<open>Date\<close> objects and copies each collection twice: the getter's copy, then the
  spread.
\<close>

record task_json =
  j_id :: jsval
  j_title :: jsval
  j_description :: jsval
  j_userId :: jsval
  j_assignedTo :: jsval
  j_completed :: jsval
  j_status :: jsval
  j_completedAt :: jsval
  j_priority :: jsval
  j_category :: jsval
  j_createdAt :: jsval
  j_updatedAt :: jsval
  j_dueDate :: jsval
  j_estimatedHours :: jsval
  j_actualHours :: jsval
  j_tags :: jsval
  j_notes :: jsval
  j_dependencies :: jsval
  j_projectId :: jsval
  j_parentTaskId :: jsval
  j_recurrence :: jsval

definition toJSON :: "heap \<Rightarrow> task \<Rightarrow> task_json \<times> heap" where
  "toJSON h t =
     (let (g1, h1) = get_tags h t;
          (a1, h2) = alloc h1 (arr h1 g1);
          (g2, h3) = get_notes h2 t;
          (a2, h4) = alloc h3 (arr h3 g2);
          (g3, h5) = get_dependencies h4 t;
          (a3, h6) = alloc h5 (arr h5 g3)
      in (\<lparr> j_id = task_id t,
             j_title = title t,
             j_description = description t,
             j_userId = userId t,
             j_assignedTo = assignedTo t,
             j_completed = completed t,
             j_status = status t,
             j_completedAt = completedAt t,
             j_priority = priority t,
             j_category = category t,
             j_createdAt = createdAt t,
             j_updatedAt = updatedAt t,
             j_dueDate = dueDate t,
             j_estimatedHours = estimatedHours t,
             j_actualHours = actualHours t,
             j_tags = JRef a1,
             j_notes = JRef a2,
             j_dependencies = JRef a3,
             j_projectId = projectId t,
             j_parentTaskId = parentTaskId t,
             j_recurrence = recurrence t \<rparr>, h6))"

text \<open>\<^verbatim>\<open>[...(v || [])]\<close>: for a falsy \<open>v\<close> the empty literal is allocated, then its copy.\<close>

definition copy_or_empty :: "heap \<Rightarrow> jsval \<Rightarrow> js_error + addr \<times> heap" where
  "copy_or_empty h v =
     (if truthy v
      then (case spread h v of Inl e \<Rightarrow> Inl e | Inr xs \<Rightarrow> Inr (alloc h xs))
      else (let (e, h1) = alloc h [] in Inr (alloc h1 (arr h1 e))))"

definition fromJSON :: "runtime \<Rightarrow> heap \<Rightarrow> task_json \<Rightarrow> js_error + heap \<times> task" where
  "fromJSON rt h json =
     (case Task_new rt h (j_title json) (j_description json) (j_userId json)
             \<lparr> o_assignedTo = j_assignedTo json,
               o_priority = j_priority json,
               o_category = j_category json,
               o_dueDate = j_dueDate json,
               o_estimatedHours = j_estimatedHours json,
               o_actualHours = j_actualHours json,
               o_projectId = j_projectId json,
               o_parentTaskId = j_parentTaskId json,
               o_recurrence = j_recurrence json \<rparr> of
        Inl e \<Rightarrow> Inl e
      | Inr (h0, task0) \<Rightarrow>
          (let task1 = task0
                 \<lparr> task_id := j_id json,
                   completed := j_completed json,
                   status := j_status json,
                   completedAt := (if truthy (j_completedAt json)
                                   then JDate (new_Date rt (j_completedAt json)) else JNull),
                   createdAt := JDate (new_Date rt (j_createdAt json)),
                   updatedAt := JDate (new_Date rt (j_updatedAt json)) \<rparr>
           in case copy_or_empty h0 (j_tags json) of
                Inl e \<Rightarrow> Inl e
              | Inr (a1, h1) \<Rightarrow>
                  (case copy_or_empty h1 (j_notes json) of
                     Inl e \<Rightarrow> Inl e
                   | Inr (a2, h2) \<Rightarrow>
                       (case copy_or_empty h2 (j_dependencies json) of
                          Inl e \<Rightarrow> Inl e
                        | Inr (a3, h3) \<Rightarrow>
                            Inr (h3, task1\<lparr> p_tags := a1, p_notes := a2,
                                           p_dependencies := a3 \<rparr>)))))"

text \<open>\<^verbatim>\<open>Task.fromJSON(task.toJSON())\<close>\<close>

definition fromJSON_toJSON :: "runtime \<Rightarrow> heap \<times> task \<Rightarrow> js_error + heap \<times> task" where
  "fromJSON_toJSON rt = (\<lambda>(h, t). let (json, h1) = toJSON h t in fromJSON rt h1 json)"

subsection \<open>Invariants and examples\<close>

text \<open>\<^verbatim>\<open>v != null\<close>\<close>

definition not_null :: "jsval \<Rightarrow> bool" where
  "not_null v = (v \<noteq> JNull \<and> v \<noteq> JUndefined)"

text \<open>
  \<^verbatim>\<open>completed == (status == 'completed')\<close>, and \<^verbatim>\<open>completedAt != null\<close> exactly when
  \<^verbatim>\<open>completed == true\<close>.
\<close>

definition completion_consistent :: "task \<Rightarrow> bool" where
  "completion_consistent t =
     (completed t = JBool (status t = JStr ''completed'')
      \<and> not_null (completedAt t) = (completed t = JBool True))"

text \<open>The private arrays of a task are arrays of the heap.\<close>

definition task_in_heap :: "heap \<Rightarrow> task \<Rightarrow> bool" where
  "task_in_heap h t =
     (p_tags t < length h \<and> p_notes t < length h \<and> p_dependencies t < length h)"

text \<open>The stored collections of a task: tags, notes, dependencies.\<close>

definition collections :: "heap \<Rightarrow> task \<Rightarrow> jsval list \<times> jsval list \<times> jsval list" where
  "collections h t = (arr h (p_tags t), arr h (p_notes t), arr h (p_dependencies t))"

text \<open>
  \<^verbatim>\<open>new Task('Write spec', undefined, 'u1')\<close> on the empty heap, under the example
  runtime, and the runtime one second later.
\<close>

definition example_task :: task where
  "example_task =
     \<lparr> task_id = JStr ''task_1000_abc'',
       title = JStr ''Write spec'',
       description = JStr [],
       userId = JStr ''u1'',
       assignedTo = JStr ''u1'',
       completed = JBool False,
       status = JStr ''pending'',
       completedAt = JNull,
       priority = JStr ''medium'',
       category = JStr ''general'',
       createdAt = JDate (Some 1000),
       updatedAt = JDate (Some 1000),
       dueDate = JNull,
       estimatedHours = JNull,
       actualHours = JNull,
       p_tags = 0,
       p_notes = 1,
       p_dependencies = 2,
       projectId = JNull,
       parentTaskId = JNull,
       recurrence = JNull \<rparr>"

definition example_heap :: heap where
  "example_heap = [[], [], []]"

definition later_runtime :: runtime where
  "later_runtime = example_runtime\<lparr> now := 2000, random_id := ''task_2000_xyz'' \<rparr>"


section \<open>task-repository.js\<close>

text \<open>
  The repository holds task objects, which its callers and its listeners hold too: a
  task of the repository is a reference into the store of task objects, and a method
  returns the reference. \<open>tasks\<close> is the \<^verbatim>\<open>Map\<close> from id to task, a list of pairs in
  insertion order, looked up by key; \<open>listeners\<close> is the \<^verbatim>\<open>Map\<close> from event name to
  the callbacks registered with \<^verbatim>\<open>on\<close>. A callback is any code: what it does is given
  by the interpretation \<open>call\<close>, under which a callback, handed the event, changes the
  heap, the task objects and the repository as it likes and then returns or throws. The
  storage adapter is outside the repository: \<open>storage\<close> is \<open>None\<close> for \<^verbatim>\<open>null\<close>, and
  otherwise says for the data passed to \<^verbatim>\<open>save\<close> whether the call returns (\<open>None\<close>)
  or throws an error with a message. The methods are \<^verbatim>\<open>async\<close>; a rejected promise is
  the error. A method can throw after it has changed the repository, so it returns its
  outcome together with the state it leaves.
\<close>

type_synonym tref = nat

datatype event =
    TaskAdded tref
  | TaskUpdated tref
  | TaskDeleted jsval tref

record 'l repository =
  tasks :: "(jsval \<times> tref) list"
  listeners :: "(string \<times> 'l list) list"
  storage :: "(task_json list \<Rightarrow> string option) option"

type_synonym 'l world = "heap \<times> (tref \<Rightarrow> task) \<times> 'l repository"

type_synonym 'l callback = "'l \<Rightarrow> event \<Rightarrow> 'l world \<Rightarrow> js_error option \<times> 'l world"

text \<open>
  \<^verbatim>\<open>emit(event, data)\<close>: if the event has listeners, \<^verbatim>\<open>forEach\<close> calls them in
  order, over the callbacks registered when it starts. Nothing catches: the first
  callback that throws ends the loop and the method that emitted.
\<close>

fun run_listeners :: "'l callback \<Rightarrow> 'l list \<Rightarrow> event \<Rightarrow> 'l world \<Rightarrow> js_error option \<times> 'l world" where
  "run_listeners call [] ev w = (None, w)"
| "run_listeners call (l # ls) ev w =
     (case call l ev w of
        (Some e, w1) \<Rightarrow> (Some e, w1)
      | (None, w1) \<Rightarrow> run_listeners call ls ev w1)"

definition emit :: "'l callback \<Rightarrow> string \<Rightarrow> event \<Rightarrow> 'l world \<Rightarrow> js_error option \<times> 'l world" where
  "emit call name ev = (\<lambda>(h, objs, r).
     case map_of (listeners r) name of
       None \<Rightarrow> (None, (h, objs, r))
     | Some ls \<Rightarrow> run_listeners call ls ev (h, objs, r))"

text \<open>\<^verbatim>\<open>Array.from(this.tasks.values()).map(task => task.toJSON())\<close>\<close>

fun toJSON_all :: "heap \<Rightarrow> task list \<Rightarrow> task_json list \<times> heap" where
  "toJSON_all h [] = ([], h)"
| "toJSON_all h (t # ts) =
     (let (j, h1) = toJSON h t; (js, h2) = toJSON_all h1 ts in (j # js, h2))"

text \<open>
  \<^verbatim>\<open>saveToStorage\<close>, called where \<^verbatim>\<open>this.storage\<close> is set: an error of \<^verbatim>\<open>save\<close> is
  caught and thrown again under a new message.
\<close>

definition saveToStorage ::
  "(task_json list \<Rightarrow> string option) \<Rightarrow> heap \<Rightarrow> (tref \<Rightarrow> task) \<Rightarrow> (jsval \<times> tref) list
     \<Rightarrow> (js_error + unit) \<times> heap" where
  "saveToStorage save h objs ts =
     (let (data, h1) = toJSON_all h (map (\<lambda>p. objs (snd p)) ts)
      in case save data of
           None \<Rightarrow> (Inr (), h1)
         | Some msg \<Rightarrow> (Inl (Error (''Failed to save to storage: '' @ msg)), h1))"

text \<open>The tail of \<^verbatim>\<open>update\<close> and \<^verbatim>\<open>deleteTask\<close>: save if there is a storage, return.\<close>

definition save_and_return :: "'a \<Rightarrow> 'l world \<Rightarrow> (js_error + 'a) \<times> 'l world" where
  "save_and_return x = (\<lambda>(h, objs, r).
     case storage r of
       None \<Rightarrow> (Inr x, (h, objs, r))
     | Some save \<Rightarrow>
         (case saveToStorage save h objs (tasks r) of
            (Inl e, h1) \<Rightarrow> (Inl e, (h1, objs, r))
          | (Inr u, h1) \<Rightarrow> (Inr x, (h1, objs, r))))"

text \<open>
  The keys of the object passed to \<^verbatim>\<open>update\<close>: the data fields of a task and the three
  properties with a setter. A key that is no field of a task, which \<^verbatim>\<open>Object.assign\<close>
  would add to the object as a new property, is outside the model.
\<close>

datatype task_field =
    F_id | F_title | F_description | F_userId | F_assignedTo | F_completed | F_status
  | F_completedAt | F_priority | F_category | F_createdAt | F_updatedAt | F_dueDate
  | F_estimatedHours | F_actualHours | F_tags | F_notes | F_dependencies | F_projectId
  | F_parentTaskId | F_recurrence

fun assign_field :: "task_field \<Rightarrow> jsval \<Rightarrow> heap \<times> task \<Rightarrow> heap \<times> task" where
  "assign_field F_id v (h, t) = (h, t\<lparr> task_id := v \<rparr>)"
| "assign_field F_title v (h, t) = (h, t\<lparr> title := v \<rparr>)"
| "assign_field F_description v (h, t) = (h, t\<lparr> description := v \<rparr>)"
| "assign_field F_userId v (h, t) = (h, t\<lparr> userId := v \<rparr>)"
| "assign_field F_assignedTo v (h, t) = (h, t\<lparr> assignedTo := v \<rparr>)"
| "assign_field F_completed v (h, t) = (h, t\<lparr> completed := v \<rparr>)"
| "assign_field F_status v (h, t) = (h, t\<lparr> status := v \<rparr>)"
| "assign_field F_completedAt v (h, t) = (h, t\<lparr> completedAt := v \<rparr>)"
| "assign_field F_priority v (h, t) = (h, t\<lparr> priority := v \<rparr>)"
| "assign_field F_category v (h, t) = (h, t\<lparr> category := v \<rparr>)"
| "assign_field F_createdAt v (h, t) = (h, t\<lparr> createdAt := v \<rparr>)"
| "assign_field F_updatedAt v (h, t) = (h, t\<lparr> updatedAt := v \<rparr>)"
| "assign_field F_dueDate v (h, t) = (h, t\<lparr> dueDate := v \<rparr>)"
| "assign_field F_estimatedHours v (h, t) = (h, t\<lparr> estimatedHours := v \<rparr>)"
| "assign_field F_actualHours v (h, t) = (h, t\<lparr> actualHours := v \<rparr>)"
| "assign_field F_tags v (h, t) = set_tags v (h, t)"
| "assign_field F_notes v (h, t) = set_notes v (h, t)"
| "assign_field F_dependencies v (h, t) = set_dependencies v (h, t)"
| "assign_field F_projectId v (h, t) = (h, t\<lparr> projectId := v \<rparr>)"
| "assign_field F_parentTaskId v (h, t) = (h, t\<lparr> parentTaskId := v \<rparr>)"
| "assign_field F_recurrence v (h, t) = (h, t\<lparr> recurrence := v \<rparr>)"

text \<open>\<^verbatim>\<open>Object.assign(task, updates)\<close>: each property of \<open>updates\<close> in turn.\<close>

fun Object_assign :: "(task_field \<times> jsval) list \<Rightarrow> heap \<times> task \<Rightarrow> heap \<times> task" where
  "Object_assign [] s = s"
| "Object_assign ((k, v) # kvs) s = Object_assign kvs (assign_field k v s)"

text \<open>\<^verbatim>\<open>this.tasks.delete(taskId)\<close>\<close>

definition without :: "jsval \<Rightarrow> (jsval \<times> 'a) list \<Rightarrow> (jsval \<times> 'a) list" where
  "without k ts = filter (\<lambda>p. fst p \<noteq> k) ts"

text \<open>
  \<^verbatim>\<open>update\<close>: \<open>None\<close> is \<^verbatim>\<open>null\<close>. The task object is changed in place, under the
  reference the index holds.
\<close>

definition update ::
  "runtime \<Rightarrow> 'l callback \<Rightarrow> jsval \<Rightarrow> (task_field \<times> jsval) list \<Rightarrow> 'l world
     \<Rightarrow> (js_error + tref option) \<times> 'l world" where
  "update rt call taskId updates = (\<lambda>(h, objs, r).
     case map_of (tasks r) taskId of
       None \<Rightarrow> (Inr None, (h, objs, r))
     | Some a \<Rightarrow>
         (let (h1, t1) = Object_assign updates (h, objs a);
              t2 = t1\<lparr> updatedAt := date_now rt \<rparr>
          in case emit call ''taskUpdated'' (TaskUpdated a) (h1, objs(a := t2), r) of
               (Some e, w) \<Rightarrow> (Inl e, w)
             | (None, w) \<Rightarrow> save_and_return (Some a) w))"

definition deleteTask ::
  "'l callback \<Rightarrow> jsval \<Rightarrow> 'l world \<Rightarrow> (js_error + tref) \<times> 'l world" where
  "deleteTask call taskId = (\<lambda>(h, objs, r).
     case map_of (tasks r) taskId of
       None \<Rightarrow> (Inl (Error ''Task not found''), (h, objs, r))
     | Some a \<Rightarrow>
         (case emit call ''taskDeleted'' (TaskDeleted taskId a)
                 (h, objs, r\<lparr> tasks := without taskId (tasks r) \<rparr>) of
            (Some e, w) \<Rightarrow> (Inl e, w)
          | (None, w) \<Rightarrow> save_and_return a w))"

text \<open>
  Examples: a repository that holds the example task, at reference 0 of a store in which
  every reference is that task, without listeners and without storage. Callbacks that
  return at once and that throw, and storages that save and that are full.
\<close>

definition example_repository :: "unit repository" where
  "example_repository =
     \<lparr> tasks = [(JStr ''task_1000_abc'', 0)], listeners = [], storage = None \<rparr>"

definition example_objects :: "tref \<Rightarrow> task" where
  "example_objects = (\<lambda>a. example_task)"

definition quiet_callback :: "unit callback" where
  "quiet_callback = (\<lambda>l ev w. (None, w))"

definition throwing_callback :: "unit callback" where
  "throwing_callback = (\<lambda>l ev w. (Some (Error ''listener failed''), w))"

definition full_storage :: "task_json list \<Rightarrow> string option" where
  "full_storage = (\<lambda>data. Some ''quota exceeded'')"

definition good_storage :: "task_json list \<Rightarrow> string option" where
  "good_storage = (\<lambda>data. None)"

section \<open>The simplified repository of the Day 2 guide\<close>

text \<open>
  \<^verbatim>\<open>TaskRepository.delete(id)\<close> of the guide: \<^verbatim>\<open>has\<close>, \<^verbatim>\<open>delete\<close>, then
  \<^verbatim>\<open>_saveTasksToStorage()\<close>, which catches and logs every error of serialization and
  of the storage manager. The tasks are of the guide's own class, of which \<^verbatim>\<open>delete\<close>
  reads nothing; \<open>s_saves\<close> counts the calls of \<^verbatim>\<open>_saveTasksToStorage\<close>.
\<close>

record 'a simple_repository =
  s_tasks :: "(jsval \<times> 'a) list"
  s_saves :: nat

definition simple_delete :: "jsval \<Rightarrow> 'a simple_repository \<Rightarrow> bool \<times> 'a simple_repository" where
  "simple_delete i r =
     (if map_of (s_tasks r) i \<noteq> None
      then (True, r\<lparr> s_tasks := without i (s_tasks r), s_saves := Suc (s_saves r) \<rparr>)
      else (False, r))"

section \<open>Predicates of the statements\<close>

text \<open>
  The arguments on which the validators do not throw: \<^verbatim>\<open>trim\<close> exists on strings
  only, and the guards before it catch \<open>null\<close>, \<open>undefined\<close> and (for the priority)
  every falsy value.
\<close>

definition text_or_nullish :: "jsval \<Rightarrow> bool" where
  "text_or_nullish v = (v = JNull \<or> v = JUndefined \<or> is_string v)"

definition text_or_falsy :: "jsval \<Rightarrow> bool" where
  "text_or_falsy v = (is_string v \<or> \<not> truthy v)"

text \<open>
  What \<^verbatim>\<open>validateTask\<close> keeps true of its accumulated result after each field.
\<close>

definition fields_ok :: "task_result \<Rightarrow> bool" where
  "fields_ok a = (isValid a = (errors a = []) \<and>
     (errors a = []) = list_all (\<lambda>kr. isValid (snd kr)) (fieldResults a))"

section \<open>Properties of the validators\<close>

lemma title_validate_errors:
  "title_validate st v = Inr r \<Longrightarrow> isValid r = (errors r = [])"
  by (auto simp: title_validate_def Let_def split: if_splits jsval.splits)

lemma description_validate_errors:
  "description_validate n v = Inr r \<Longrightarrow> isValid r = (errors r = [])"
  by (auto simp: description_validate_def Let_def split: if_splits jsval.splits)

lemma priority_validate_errors:
  "priority_validate vs v = Inr r \<Longrightarrow> isValid r = (errors r = [])"
  by (auto simp: priority_validate_def Let_def split: if_splits jsval.splits)

lemma dueDate_validate_errors:
  "isValid (dueDate_validate rt v) = (errors (dueDate_validate rt v) = [])"
  by (auto simp: dueDate_validate_def split: option.splits)

lemma fields_ok_checked:
  "fields_ok a \<Longrightarrow> isValid r = (errors r = []) \<Longrightarrow> fields_ok (field_checked k r a)"
  by (auto simp: fields_ok_def field_checked_def Let_def)

lemma fields_ok_absent: "fields_ok a \<Longrightarrow> fields_ok (field_absent k v a)"
  by (simp add: fields_ok_def field_absent_def)

lemma fields_ok_none: "fields_ok no_result"
  by (simp add: fields_ok_def no_result_def)

lemma fieldResults_checked:
  "fieldResults (field_checked k r a) = fieldResults a @ [(k, r)]"
  by (simp add: field_checked_def Let_def)

lemma fieldResults_absent: "fieldResults (field_absent k v a) = fieldResults a"
  by (simp add: field_absent_def)

lemma errors_checked_mono: "set (errors a) \<subseteq> set (errors (field_checked k r a))"
  by (auto simp: field_checked_def Let_def)

lemma errors_absent: "errors (field_absent k v a) = errors a"
  by (simp add: field_absent_def)

lemma validateTask_steps:
  assumes "validateTask rt tv c = Inr r"
  obtains r1 a2 a3 where
    "title_validate (v_title tv) (get_prop c ''title'') = Inr r1"
    "(if has_prop c ''description''
      then (\<exists>r2. description_validate (v_description tv) (get_prop c ''description'') = Inr r2
               \<and> a2 = field_checked ''description'' r2 (field_checked ''title'' r1 no_result))
      else a2 = field_absent ''description'' (JStr []) (field_checked ''title'' r1 no_result))"
    "(if has_prop c ''priority''
      then (\<exists>r3. priority_validate (v_priority tv) (get_prop c ''priority'') = Inr r3
               \<and> a3 = field_checked ''priority'' r3 a2)
      else a3 = field_absent ''priority'' (JStr ''medium'') a2)"
    "r = (if has_prop c ''dueDate''
          then field_checked ''dueDate'' (dueDate_validate rt (get_prop c ''dueDate'')) a3
          else field_absent ''dueDate'' JNull a3)"
  using assms
  by (auto simp: validateTask_def Let_def split: sum.splits if_splits)


lemma title_validate_returns:
  "text_or_nullish v \<Longrightarrow> \<exists>r. title_validate st v = Inr r"
  by (cases v) (simp_all add: title_validate_def text_or_nullish_def Let_def)

lemma description_validate_returns:
  "text_or_nullish v \<Longrightarrow> \<exists>r. description_validate n v = Inr r"
  by (cases v) (simp_all add: description_validate_def text_or_nullish_def Let_def)

lemma priority_validate_returns:
  "text_or_falsy v \<Longrightarrow> \<exists>r. priority_validate vs v = Inr r"
  by (cases v) (simp_all add: priority_validate_def text_or_falsy_def Let_def)

lemma validateTask_returns:
  assumes "text_or_nullish (get_prop c ''title'')"
      and "text_or_nullish (get_prop c ''description'')"
      and "text_or_falsy (get_prop c ''priority'')"
  shows "\<exists>r. validateTask rt tv c = Inr r"
proof -
  obtain r1 where r1: "title_validate (v_title tv) (get_prop c ''title'') = Inr r1"
    using title_validate_returns [OF assms(1)] by blast
  obtain r2 where r2: "description_validate (v_description tv) (get_prop c ''description'') = Inr r2"
    using description_validate_returns [OF assms(2)] by blast
  obtain r3 where r3: "priority_validate (v_priority tv) (get_prop c ''priority'') = Inr r3"
    using priority_validate_returns [OF assms(3)] by blast
  show ?thesis
    by (simp add: validateTask_def Let_def r1 r2 r3)
qed

lemma fields_ok_steps:
  assumes s1: "title_validate st t = Inr r1"
    and s2: "(if d
      then (\<exists>r2. description_validate n dv = Inr r2
               \<and> a2 = field_checked ''description'' r2 (field_checked ''title'' r1 no_result))
      else a2 = field_absent ''description'' (JStr []) (field_checked ''title'' r1 no_result))"
    and s3: "(if p
      then (\<exists>r3. priority_validate vs pv = Inr r3
               \<and> a3 = field_checked ''priority'' r3 a2)
      else a3 = field_absent ''priority'' (JStr ''medium'') a2)"
    and s4: "r = (if dd
          then field_checked ''dueDate'' (dueDate_validate rt ddv) a3
          else field_absent ''dueDate'' JNull a3)"
  shows "fields_ok r"
proof -
  have ok1: "fields_ok (field_checked ''title'' r1 no_result)"
    by (intro fields_ok_checked fields_ok_none title_validate_errors [OF s1])
  have ok2: "fields_ok a2"
  proof (cases d)
    case True
    with s2 obtain r2 where "description_validate n dv = Inr r2"
      and "a2 = field_checked ''description'' r2 (field_checked ''title'' r1 no_result)" by auto
    then show ?thesis
      using fields_ok_checked [OF ok1 description_validate_errors] by simp
  next
    case False
    with s2 ok1 show ?thesis by (simp add: fields_ok_absent)
  qed
  have ok3: "fields_ok a3"
  proof (cases p)
    case True
    with s3 obtain r3 where "priority_validate vs pv = Inr r3"
      and "a3 = field_checked ''priority'' r3 a2" by auto
    then show ?thesis
      using fields_ok_checked [OF ok2 priority_validate_errors] by simp
  next
    case False
    with s3 ok2 show ?thesis by (simp add: fields_ok_absent)
  qed
  show ?thesis
    using s4 ok3 by (simp add: fields_ok_checked dueDate_validate_errors fields_ok_absent)
qed

lemma validateTask_result:
  assumes "validateTask rt tv c = Inr r"
  shows "(\<exists>r1. title_validate (v_title tv) (get_prop c ''title'') = Inr r1
             \<and> map_of (fieldResults r) ''title'' = Some r1)
       \<and> (if has_prop c ''description''
          then \<exists>r2. description_validate (v_description tv) (get_prop c ''description'') = Inr r2
                  \<and> map_of (fieldResults r) ''description'' = Some r2
          else map_of (fieldResults r) ''description'' = None)
       \<and> (if has_prop c ''priority''
          then \<exists>r3. priority_validate (v_priority tv) (get_prop c ''priority'') = Inr r3
                  \<and> map_of (fieldResults r) ''priority'' = Some r3
          else map_of (fieldResults r) ''priority'' = None)
       \<and> (if has_prop c ''dueDate''
          then map_of (fieldResults r) ''dueDate'' = Some (dueDate_validate rt (get_prop c ''dueDate''))
          else map_of (fieldResults r) ''dueDate'' = None)
       \<and> isValid r = list_all (\<lambda>kr. isValid (snd kr)) (fieldResults r)"
proof -
  from assms obtain r1 a2 a3 where
    s1: "title_validate (v_title tv) (get_prop c ''title'') = Inr r1" and
    s2: "(if has_prop c ''description''
      then (\<exists>r2. description_validate (v_description tv) (get_prop c ''description'') = Inr r2
               \<and> a2 = field_checked ''description'' r2 (field_checked ''title'' r1 no_result))
      else a2 = field_absent ''description'' (JStr []) (field_checked ''title'' r1 no_result))" and
    s3: "(if has_prop c ''priority''
      then (\<exists>r3. priority_validate (v_priority tv) (get_prop c ''priority'') = Inr r3
               \<and> a3 = field_checked ''priority'' r3 a2)
      else a3 = field_absent ''priority'' (JStr ''medium'') a2)" and
    s4: "r = (if has_prop c ''dueDate''
          then field_checked ''dueDate'' (dueDate_validate rt (get_prop c ''dueDate'')) a3
          else field_absent ''dueDate'' JNull a3)"
    by (rule validateTask_steps)
  let ?a1 = "field_checked ''title'' r1 no_result"
  have f1: "fieldResults ?a1 = [(''title'', r1)]"
    by (simp add: fieldResults_checked no_result_def)
  have ok4: "fields_ok r"
    by (rule fields_ok_steps [OF s1 s2 s3 s4])
  have v: "isValid r = list_all (\<lambda>kr. isValid (snd kr)) (fieldResults r)"
    using ok4 by (simp add: fields_ok_def)
  have m: "(\<exists>r1. title_validate (v_title tv) (get_prop c ''title'') = Inr r1
             \<and> map_of (fieldResults r) ''title'' = Some r1)
       \<and> (if has_prop c ''description''
          then \<exists>r2. description_validate (v_description tv) (get_prop c ''description'') = Inr r2
                  \<and> map_of (fieldResults r) ''description'' = Some r2
          else map_of (fieldResults r) ''description'' = None)
       \<and> (if has_prop c ''priority''
          then \<exists>r3. priority_validate (v_priority tv) (get_prop c ''priority'') = Inr r3
                  \<and> map_of (fieldResults r) ''priority'' = Some r3
          else map_of (fieldResults r) ''priority'' = None)
       \<and> (if has_prop c ''dueDate''
          then map_of (fieldResults r) ''dueDate'' = Some (dueDate_validate rt (get_prop c ''dueDate''))
          else map_of (fieldResults r) ''dueDate'' = None)"
    using s1 s2 s3 s4 f1
    by (auto simp: fieldResults_checked fieldResults_absent split: if_splits)
  from m v show ?thesis by blast
qed

lemma validateTask_no_title:
  assumes "validateTask rt tv c = Inr r" and "\<not> has_prop c ''title''"
  shows "\<not> isValid r \<and> ''title: Title is required'' \<in> set (errors r)"
proof -
  from assms(1) obtain r1 a2 a3 where
    s1: "title_validate (v_title tv) (get_prop c ''title'') = Inr r1" and
    s2: "(if has_prop c ''description''
      then (\<exists>r2. description_validate (v_description tv) (get_prop c ''description'') = Inr r2
               \<and> a2 = field_checked ''description'' r2 (field_checked ''title'' r1 no_result))
      else a2 = field_absent ''description'' (JStr []) (field_checked ''title'' r1 no_result))" and
    s3: "(if has_prop c ''priority''
      then (\<exists>r3. priority_validate (v_priority tv) (get_prop c ''priority'') = Inr r3
               \<and> a3 = field_checked ''priority'' r3 a2)
      else a3 = field_absent ''priority'' (JStr ''medium'') a2)" and
    s4: "r = (if has_prop c ''dueDate''
          then field_checked ''dueDate'' (dueDate_validate rt (get_prop c ''dueDate'')) a3
          else field_absent ''dueDate'' JNull a3)"
    by (rule validateTask_steps)
  let ?a1 = "field_checked ''title'' r1 no_result"
  let ?e = "''title: Title is required''"
  have "get_prop c ''title'' = JUndefined"
    using assms(2) by (simp add: has_prop_def get_prop_def)
  with s1 have r1: "r1 = \<lparr> isValid = False, errors = [''Title is required''], sanitizedValue = None \<rparr>"
    by (simp add: title_validate_def)
  have e1: "?e \<in> set (errors ?a1)"
    by (simp add: r1 field_checked_def no_result_def)
  have e2: "?e \<in> set (errors a2)"
    using s2 e1 errors_checked_mono by (auto simp: errors_absent split: if_splits)
  have e3: "?e \<in> set (errors a3)"
    using s3 e2 errors_checked_mono by (auto simp: errors_absent split: if_splits)
  have e4: "?e \<in> set (errors r)"
    using s4 e3 errors_checked_mono by (auto simp: errors_absent split: if_splits)
  have ok4: "fields_ok r"
    by (rule fields_ok_steps [OF s1 s2 s3 s4])
  from ok4 e4 show ?thesis by (auto simp: fields_ok_def)
qed

lemma validateTask_keys:
  assumes "validateTask rt tv c = Inr r"
  shows "map fst (fieldResults r)
           = ''title'' # (if has_prop c ''description'' then [''description''] else [])
               @ (if has_prop c ''priority'' then [''priority''] else [])
               @ (if has_prop c ''dueDate'' then [''dueDate''] else [])"
proof -
  from assms obtain r1 a2 a3 where
    s2: "(if has_prop c ''description''
      then (\<exists>r2. description_validate (v_description tv) (get_prop c ''description'') = Inr r2
               \<and> a2 = field_checked ''description'' r2 (field_checked ''title'' r1 no_result))
      else a2 = field_absent ''description'' (JStr []) (field_checked ''title'' r1 no_result))" and
    s3: "(if has_prop c ''priority''
      then (\<exists>r3. priority_validate (v_priority tv) (get_prop c ''priority'') = Inr r3
               \<and> a3 = field_checked ''priority'' r3 a2)
      else a3 = field_absent ''priority'' (JStr ''medium'') a2)" and
    s4: "r = (if has_prop c ''dueDate''
          then field_checked ''dueDate'' (dueDate_validate rt (get_prop c ''dueDate'')) a3
          else field_absent ''dueDate'' JNull a3)"
    by (rule validateTask_steps)
  have f1: "map fst (fieldResults (field_checked ''title'' r1 no_result)) = [''title'']"
    by (simp add: fieldResults_checked no_result_def)
  have f2: "map fst (fieldResults a2)
      = ''title'' # (if has_prop c ''description'' then [''description''] else [])"
    using s2 f1 by (auto simp: fieldResults_checked fieldResults_absent split: if_splits)
  have f3: "map fst (fieldResults a3)
      = ''title'' # (if has_prop c ''description'' then [''description''] else [])
          @ (if has_prop c ''priority'' then [''priority''] else [])"
    using s3 f2 by (auto simp: fieldResults_checked fieldResults_absent split: if_splits)
  show ?thesis
    using s4 f3 by (auto simp: fieldResults_checked fieldResults_absent split: if_splits)
qed

text \<open>
  What \<^verbatim>\<open>validateTask\<close> checks. It always runs the title validator, and the
  description, priority and due date validators exactly for the keys present on the
  candidate; the field results are those and no others. The result is valid exactly when
  every field result is valid, so a candidate without a \<open>title\<close> key is invalid, with
  the error \<open>title: Title is required\<close>. The function returns a result whenever title
  and description are strings, \<open>null\<close> or absent and the priority is a string or falsy.
\<close>

lemma validateTask_title_always_checked:
  "(\<forall>r. validateTask rt TaskValidator c = Inr r \<longrightarrow>
      (\<exists>r1. title_validate (v_title TaskValidator) (get_prop c ''title'') = Inr r1
            \<and> map_of (fieldResults r) ''title'' = Some r1)
    \<and> (if has_prop c ''description''
        then \<exists>r2. description_validate (v_description TaskValidator) (get_prop c ''description'') = Inr r2
                \<and> map_of (fieldResults r) ''description'' = Some r2
        else map_of (fieldResults r) ''description'' = None)
    \<and> (if has_prop c ''priority''
        then \<exists>r3. priority_validate (v_priority TaskValidator) (get_prop c ''priority'') = Inr r3
                \<and> map_of (fieldResults r) ''priority'' = Some r3
        else map_of (fieldResults r) ''priority'' = None)
    \<and> (if has_prop c ''dueDate''
        then map_of (fieldResults r) ''dueDate'' = Some (dueDate_validate rt (get_prop c ''dueDate''))
        else map_of (fieldResults r) ''dueDate'' = None)
    \<and> map fst (fieldResults r)
          = ''title'' # (if has_prop c ''description'' then [''description''] else [])
              @ (if has_prop c ''priority'' then [''priority''] else [])
              @ (if has_prop c ''dueDate'' then [''dueDate''] else [])
    \<and> isValid r = list_all (\<lambda>kr. isValid (snd kr)) (fieldResults r)
    \<and> (\<not> has_prop c ''title'' \<longrightarrow>
          \<not> isValid r \<and> ''title: Title is required'' \<in> set (errors r)))
   \<and> (text_or_nullish (get_prop c ''title'') \<and> text_or_nullish (get_prop c ''description'')
        \<and> text_or_falsy (get_prop c ''priority'')
      \<longrightarrow> (\<exists>r. validateTask rt TaskValidator c = Inr r))"
  using validateTask_result [of rt TaskValidator c] validateTask_no_title [of rt TaskValidator c]
    validateTask_returns [of c rt TaskValidator] validateTask_keys [of rt TaskValidator c]
  by blast

text \<open>
  Claim C2 at the partial update \<^verbatim>\<open>{priority: 'high'}\<close>. The comment in
  \<^verbatim>\<open>validateTaskUpdate\<close> says that only the fields being updated are validated, but
  the method hands a copy of the updates to \<^verbatim>\<open>validateTask\<close>, which validates the
  title whether or not the key is there. The title of the copy is \<open>undefined\<close>, so the
  result is invalid, with the error \<open>title: Title is required\<close>, although the priority,
  the one field present, is valid.
\<close>

theorem validateTaskUpdate_requires_title:
  "validateTaskUpdate example_runtime TaskValidator [(''priority'', JStr ''high'')] =
     Inr \<lparr> isValid = False, errors = [''title: Title is required''],
           fieldResults =
             [(''title'', \<lparr> isValid = False, errors = [''Title is required''],
                            sanitizedValue = None \<rparr>),
              (''priority'', \<lparr> isValid = True, errors = [],
                               sanitizedValue = Some (JStr ''high'') \<rparr>)],
           sanitizedData =
             [(''description'', JStr []), (''priority'', JStr ''high''), (''dueDate'', JNull)] \<rparr>
   \<and> validateTask example_runtime TaskValidator [(''priority'', JStr ''high'')] =
     validateTaskUpdate example_runtime TaskValidator [(''priority'', JStr ''high'')]
   \<and> priority_validate (v_priority TaskValidator) (JStr ''high'') =
     Inr \<lparr> isValid = True, errors = [], sanitizedValue = Some (JStr ''high'') \<rparr>"
  by code_simp

text \<open>
  Claim C6 at the title \<open>a < b\<close>, which the validator accepts: no \<open><\<close> is followed by
  a \<open>>\<close>. \<^verbatim>\<open>sanitize\<close> replaces \<open><\<close>, \<open>>\<close> and the double quote by themselves, so
  the sanitized value is the title as it was entered, and the sanitized data of
  \<^verbatim>\<open>validateTask\<close> holds an angle bracket.
\<close>

theorem sanitize_keeps_angle_bracket:
  "title_validate (v_title TaskValidator) (JStr ''a < b'') =
     Inr \<lparr> isValid = True, errors = [], sanitizedValue = Some (JStr ''a < b'') \<rparr>
   \<and> validateTask example_runtime TaskValidator [(''title'', JStr ''a < b'')] =
     Inr \<lparr> isValid = True, errors = [],
           fieldResults =
             [(''title'', \<lparr> isValid = True, errors = [],
                            sanitizedValue = Some (JStr ''a < b'') \<rparr>)],
           sanitizedData =
             [(''title'', JStr ''a < b''), (''description'', JStr []),
              (''priority'', JStr ''medium''), (''dueDate'', JNull)] \<rparr>
   \<and> sanitize [CHR ''<'', CHR ''>'', CHR 0x22, CHR ''&'', CHR 0x27]
       = [CHR ''<'', CHR ''>'', CHR 0x22] @ ''&amp;'' @ ''&#x27;''"
  by code_simp

text \<open>
  Claim C7 at \<open>urgent\<close>: the list of \<^verbatim>\<open>PriorityValidationStrategy\<close> is \<open>high\<close>,
  \<open>medium\<close>, \<open>low\<close>, so the validator rejects \<open>urgent\<close> in either case, while it
  accepts \<open>High\<close> with white space around it.
\<close>

theorem priority_validate_rejects_urgent:
  "priority_validate (v_priority TaskValidator) (JStr ''urgent'') =
     Inr \<lparr> isValid = False, errors = [''Priority must be one of: high, medium, low''],
           sanitizedValue = None \<rparr>
   \<and> priority_validate (v_priority TaskValidator) (JStr ''URGENT'') =
     Inr \<lparr> isValid = False, errors = [''Priority must be one of: high, medium, low''],
           sanitizedValue = None \<rparr>
   \<and> priority_validate (v_priority TaskValidator) (JStr '' High '') =
     Inr \<lparr> isValid = True, errors = [], sanitizedValue = Some (JStr ''high'') \<rparr>"
  by code_simp

section \<open>Properties of the task\<close>

subsection \<open>Completion\<close>

lemma consistent_touch [simp]: "completion_consistent (touch rt t) = completion_consistent t"
  by (simp add: completion_consistent_def touch_def)

lemma consistent_frame:
  "completed t' = completed t \<Longrightarrow> status t' = status t \<Longrightarrow> completedAt t' = completedAt t
   \<Longrightarrow> completion_consistent t' = completion_consistent t"
  by (simp add: completion_consistent_def)

lemma consistent_markComplete:
  "completion_consistent t \<Longrightarrow> completion_consistent (markComplete rt t)"
  by (auto simp: completion_consistent_def markComplete_def not_null_def date_now_def)

lemma consistent_markIncomplete:
  "completion_consistent t \<Longrightarrow> completion_consistent (markIncomplete rt t)"
  by (auto simp: completion_consistent_def markIncomplete_def not_null_def)

lemma consistent_setStatus:
  assumes "completion_consistent t" and "setStatus rt st (h, t) = Inr (h', t')"
  shows "completion_consistent t'"
  using assms
  by (auto simp: setStatus_def completion_consistent_def markComplete_def markIncomplete_def
        not_null_def date_now_def touch_def strict_eq_def Let_def split: if_splits)

lemma consistent_Task_new:
  "Task_new rt h a b c opts = Inr (h', t) \<Longrightarrow> completion_consistent t"
  by (auto simp: Task_new_def completion_consistent_def not_null_def alloc_def Let_def
        split: if_splits sum.splits)

lemma consistent_invoke:
  assumes "completion_consistent t" and "invoke rt m (h, t) = Inr (h', t')"
  shows "completion_consistent t'"
proof (cases m)
  case (SetStatus v)
  with assms show ?thesis by (simp add: consistent_setStatus)
next
  case MarkComplete
  with assms show ?thesis by (auto simp: consistent_markComplete)
next
  case MarkIncomplete
  with assms show ?thesis by (auto simp: consistent_markIncomplete)
qed (use assms in \<open>auto simp: updateTitle_def updateDescription_def updatePriority_def
       assignTo_def reassignToOwner_def setCategory_def addTag_def removeTag_def clearTags_def
       setDueDate_def clearDueDate_def setEstimatedHours_def setActualHours_def addTimeSpent_def
       addNote_def removeNote_def addDependency_def removeDependency_def
       set_tags_def set_notes_def set_dependencies_def get_notes_def get_dependencies_def
       alloc_def Let_def touch_def completion_consistent_def
       split: if_splits sum.splits option.splits prod.splits\<close>)

lemma setStatus_completion:
  assumes "completion_consistent t" and "setStatus rt st (h, t) = Inr (h', t')"
  shows "(if st = JStr ''completed''
          then completed t' = JBool True \<and> not_null (completedAt t')
          else completed t' = JBool False \<and> \<not> not_null (completedAt t'))"
  using assms
  by (auto simp: setStatus_def completion_consistent_def markComplete_def markIncomplete_def
        not_null_def date_now_def touch_def strict_eq_def Let_def split: if_splits)

text \<open>
  Claim C4. The constructor returns a task whose \<open>completed\<close> flag is
  \<^verbatim>\<open>status == 'completed'\<close> and whose \<open>completedAt\<close> is set exactly when the flag
  is true, and every mutator and setter keeps this so, \<^verbatim>\<open>markComplete\<close>,
  \<^verbatim>\<open>markIncomplete\<close> and \<^verbatim>\<open>setStatus\<close> among them. After \<^verbatim>\<open>setStatus\<close> the flag
  is true and \<open>completedAt\<close> set for the status \<open>completed\<close>, and the flag is false and
  \<open>completedAt\<close> cleared for every other status.
\<close>

theorem completion_invariant:
  "(Task_new rt0 h0 ttl descr uid opts = Inr (h1, t1) \<longrightarrow> completion_consistent t1)
   \<and> (completion_consistent t \<and> invoke rt m (h, t) = Inr (h', t') \<longrightarrow> completion_consistent t')
   \<and> (completion_consistent t \<and> setStatus rt st (h, t) = Inr (h'', t'') \<longrightarrow>
        (if st = JStr ''completed''
         then completed t'' = JBool True \<and> not_null (completedAt t'')
         else completed t'' = JBool False \<and> \<not> not_null (completedAt t'')))"
  using consistent_Task_new [of rt0 h0 ttl descr uid opts h1 t1]
    consistent_invoke [of t rt m h h' t'] setStatus_completion [of t rt st h h'' t'']
  by blast

theorem completion_invariant_witness:
  "Task_new example_runtime [] (JStr ''Write spec'') JUndefined (JStr ''u1'') no_options
     = Inr (example_heap, example_task)
   \<and> completion_consistent example_task
   \<and> invoke later_runtime (SetStatus (JStr ''completed'')) (example_heap, example_task)
     = Inr (example_heap,
            example_task\<lparr> completed := JBool True, status := JStr ''completed'',
                          completedAt := JDate (Some 2000), updatedAt := JDate (Some 2000) \<rparr>)
   \<and> completion_consistent
        (example_task\<lparr> completed := JBool True, status := JStr ''completed'',
                      completedAt := JDate (Some 2000), updatedAt := JDate (Some 2000) \<rparr>)
   \<and> not_null (completedAt
        (example_task\<lparr> completed := JBool True, status := JStr ''completed'',
                      completedAt := JDate (Some 2000), updatedAt := JDate (Some 2000) \<rparr>))"
proof -
  let ?t = "example_task\<lparr> completed := JBool True, status := JStr ''completed'',
                      completedAt := JDate (Some 2000), updatedAt := JDate (Some 2000) \<rparr>"
  have 1: "Task_new example_runtime [] (JStr ''Write spec'') JUndefined (JStr ''u1'') no_options
     = Inr (example_heap, example_task)"
    by code_simp
  have 2: "invoke later_runtime (SetStatus (JStr ''completed'')) (example_heap, example_task)
     = Inr (example_heap, ?t)"
    by code_simp
  from 1 completion_invariant
    [where ?rt0.0 = example_runtime and ?h0.0 = "[]" and ttl = "JStr ''Write spec''"
       and descr = JUndefined and uid = "JStr ''u1''" and opts = no_options
       and ?h1.0 = example_heap and ?t1.0 = example_task]
  have 3: "completion_consistent example_task" by blast
  from 2 3 completion_invariant
    [where t = example_task and rt = later_runtime and m = "SetStatus (JStr ''completed'')"
       and h = example_heap and h' = example_heap and t' = ?t]
  have 4: "completion_consistent ?t" by blast
  from 2 have "setStatus later_runtime (JStr ''completed'') (example_heap, example_task)
     = Inr (example_heap, ?t)"
    by simp
  with 3 completion_invariant
    [where t = example_task and rt = later_runtime and st = "JStr ''completed''"
       and h = example_heap and h'' = example_heap and t'' = ?t]
  have 5: "not_null (completedAt ?t)" by simp
  from 1 2 3 4 5 show ?thesis by blast
qed

text \<open>
  Claim C5 at a completed task and the status \<open>cancelled\<close>: \<^verbatim>\<open>setStatus\<close> assigns
  the status and then calls \<^verbatim>\<open>markIncomplete\<close>, which sets the status to \<open>pending\<close>.
  The task ends as it was before it was completed, with a new \<open>updatedAt\<close>.
\<close>

theorem setStatus_after_completed_is_pending:
  "markComplete example_runtime example_task
     = example_task\<lparr> completed := JBool True, status := JStr ''completed'',
                     completedAt := JDate (Some 1000) \<rparr>
   \<and> setStatus later_runtime (JStr ''cancelled'')
        (example_heap, markComplete example_runtime example_task)
     = Inr (example_heap, example_task\<lparr> updatedAt := JDate (Some 2000) \<rparr>)
   \<and> status (example_task\<lparr> updatedAt := JDate (Some 2000) \<rparr>) = JStr ''pending''"
  by code_simp

subsection \<open>Dependencies\<close>

text \<open>
  Claim C1 at a new task and the id \<open>task_2\<close>: \<^verbatim>\<open>addDependency\<close> pushes the id onto
  the copy that the getter \<^verbatim>\<open>this.dependencies\<close> returns, at address 4 here. The
  array of the task, at address 2, stays empty, \<^verbatim>\<open>hasDependency\<close> answers false, and
  \<open>updatedAt\<close> is stamped.
\<close>

theorem addDependency_not_recorded:
  "Task_new example_runtime [] (JStr ''Write spec'') JUndefined (JStr ''u1'') no_options
     = Inr (example_heap, example_task)
   \<and> addDependency later_runtime (JStr ''task_2'') (example_heap, example_task)
     = Inr ([[], [], [], [], [JStr ''task_2'']],
            example_task\<lparr> updatedAt := JDate (Some 2000) \<rparr>)
   \<and> hasDependency (JStr ''task_2'') [[], [], [], [], [JStr ''task_2'']]
        (example_task\<lparr> updatedAt := JDate (Some 2000) \<rparr>)
     = (False, [[], [], [], [], [JStr ''task_2''], []])
   \<and> arr [[], [], [], [], [JStr ''task_2'']] (p_dependencies example_task) = []"
  by code_simp

subsection \<open>Serialization\<close>

text \<open>
  Claim C9 at a task whose estimated hours were set to 0: \<^verbatim>\<open>fromJSON\<close> passes the
  hours through the constructor, whose \<^verbatim>\<open>options.estimatedHours || null\<close> turns 0 into
  \<open>null\<close>. The task read back differs from the one written in \<open>estimatedHours\<close> (and in
  the addresses of its three new arrays).
\<close>

theorem roundtrip_loses_zero_hours:
  "setEstimatedHours later_runtime (JNum 0) (example_heap, example_task)
     = Inr (example_heap, example_task\<lparr> estimatedHours := JNum 0, updatedAt := JDate (Some 2000) \<rparr>)
   \<and> fromJSON_toJSON later_runtime
        (example_heap, example_task\<lparr> estimatedHours := JNum 0, updatedAt := JDate (Some 2000) \<rparr>)
     = Inr (replicate 15 [],
            example_task\<lparr> estimatedHours := JNull, updatedAt := JDate (Some 2000),
                          p_tags := 12, p_notes := 13, p_dependencies := 14 \<rparr>)"
  by code_simp

subsection \<open>The collections are copied out\<close>

lemma arr_alloc_old: "a < length h \<Longrightarrow> arr (snd (alloc h xs)) a = arr h a"
  by (simp add: arr_def alloc_def nth_append)

lemma arr_alloc_new: "arr (snd (alloc h xs)) (fst (alloc h xs)) = xs"
  by (simp add: arr_def alloc_def)

lemma arr_update_other: "a \<noteq> b \<Longrightarrow> arr (h[b := xs]) a = arr h a"
  by (simp add: arr_def)

lemma in_heap_Task_new:
  "Task_new rt h a b c opts = Inr (h', t) \<Longrightarrow> task_in_heap h' t"
  by (auto simp: Task_new_def task_in_heap_def alloc_def Let_def split: if_splits sum.splits)

lemma in_heap_invoke:
  assumes "task_in_heap h t" and "invoke rt m (h, t) = Inr (h', t')"
  shows "task_in_heap h' t'"
  using assms
  by (cases m)
     (auto simp: updateTitle_def updateDescription_def updatePriority_def
       assignTo_def reassignToOwner_def setCategory_def addTag_def removeTag_def clearTags_def
       setDueDate_def clearDueDate_def setEstimatedHours_def setActualHours_def addTimeSpent_def
       addNote_def removeNote_def addDependency_def removeDependency_def setStatus_def
       markComplete_def markIncomplete_def
       set_tags_def set_notes_def set_dependencies_def get_notes_def get_dependencies_def
       alloc_def Let_def touch_def task_in_heap_def
       split: if_splits sum.splits option.splits prod.splits)

lemma copy_or_empty_length:
  "copy_or_empty h v = Inr (a, h') \<Longrightarrow> a = length h' - 1 \<and> length h < length h'"
  by (auto simp: copy_or_empty_def alloc_def Let_def split: if_splits sum.splits)

lemma in_heap_fromJSON:
  assumes "fromJSON rt h json = Inr (h', t)"
  shows "task_in_heap h' t"
proof -
  from assms obtain h0 task0 a1 h1 a2 h2 a3 where
    c1: "copy_or_empty h0 (j_tags json) = Inr (a1, h1)" and
    c2: "copy_or_empty h1 (j_notes json) = Inr (a2, h2)" and
    c3: "copy_or_empty h2 (j_dependencies json) = Inr (a3, h')" and
    t: "p_tags t = a1" "p_notes t = a2" "p_dependencies t = a3"
    by (auto simp: fromJSON_def Let_def split: sum.splits prod.splits)
  from copy_or_empty_length [OF c1] copy_or_empty_length [OF c2] copy_or_empty_length [OF c3] t
  show ?thesis by (auto simp: task_in_heap_def)
qed

lemma collections_alloc:
  "task_in_heap h t \<Longrightarrow> collections (snd (alloc h xs)) t = collections h t"
  by (simp add: collections_def task_in_heap_def arr_alloc_old)

lemma collections_update_fresh:
  "task_in_heap h t \<Longrightarrow> length h \<le> a \<Longrightarrow> collections (h'[a := xs]) t = collections h' t"
  by (auto simp: collections_def task_in_heap_def arr_update_other)

lemma in_heap_alloc: "task_in_heap h t \<Longrightarrow> task_in_heap (snd (alloc h xs)) t"
  by (auto simp: task_in_heap_def alloc_def)

lemma getter_copy:
  assumes "task_in_heap h t" and "g = alloc h ys"
  shows "fst g \<notin> {p_tags t, p_notes t, p_dependencies t}
       \<and> arr (snd g) (fst g) = ys
       \<and> collections (snd g) t = collections h t
       \<and> (\<forall>xs. collections ((snd g)[fst g := xs]) t = collections h t)"
  using assms
  by (auto simp: collections_def task_in_heap_def alloc_def arr_def nth_append)

lemma toJSON_copies:
  assumes "task_in_heap h t"
  shows "\<exists>a1 a2 a3.
       j_tags (fst (toJSON h t)) = JRef a1
     \<and> j_notes (fst (toJSON h t)) = JRef a2
     \<and> j_dependencies (fst (toJSON h t)) = JRef a3
     \<and> {a1, a2, a3} \<inter> {p_tags t, p_notes t, p_dependencies t} = {}
     \<and> arr (snd (toJSON h t)) a1 = arr h (p_tags t)
     \<and> arr (snd (toJSON h t)) a2 = arr h (p_notes t)
     \<and> arr (snd (toJSON h t)) a3 = arr h (p_dependencies t)
     \<and> collections (snd (toJSON h t)) t = collections h t
     \<and> (\<forall>xs. collections ((snd (toJSON h t))[a1 := xs]) t = collections h t
           \<and> collections ((snd (toJSON h t))[a2 := xs]) t = collections h t
           \<and> collections ((snd (toJSON h t))[a3 := xs]) t = collections h t)"
  using assms
  by (auto simp: toJSON_def get_tags_def get_notes_def get_dependencies_def
        collections_def task_in_heap_def alloc_def arr_def nth_append Let_def)

lemma alloc_fresh:
  assumes "g = alloc h ys"
  shows "fst g = length h
       \<and> length (snd g) = Suc (length h)
       \<and> arr (snd g) (fst g) = ys
       \<and> (\<forall>a < length h. arr (snd g) a = arr h a)
       \<and> (\<forall>xs b. length h \<le> b \<longrightarrow> (\<forall>a < length h. arr ((snd g)[b := xs]) a = arr h a))"
  using assms by (auto simp: alloc_def arr_def nth_append)


lemma toJSON_fresh:
  "j_tags (fst (toJSON h t)) = JRef (length h + 1)
   \<and> j_notes (fst (toJSON h t)) = JRef (length h + 3)
   \<and> j_dependencies (fst (toJSON h t)) = JRef (length h + 5)
   \<and> length (snd (toJSON h t)) = length h + 6
   \<and> (\<forall>a < length h. arr (snd (toJSON h t)) a = arr h a)
   \<and> (\<forall>xs b. length h \<le> b \<longrightarrow>
         (\<forall>a < length h. arr ((snd (toJSON h t))[b := xs]) a = arr h a))"
  by (auto simp: toJSON_def get_tags_def get_notes_def get_dependencies_def
        alloc_def arr_def nth_append Let_def)



lemma getters_fresh:
  "fst (get_tags h t) = length h
     \<and> fst (get_notes h t) = length h
     \<and> fst (get_dependencies h t) = length h
     \<and> (\<forall>g \<in> {get_tags h t, get_notes h t, get_dependencies h t}.
           length (snd g) = Suc (length h)
         \<and> (\<forall>a < length h. arr (snd g) a = arr h a)
         \<and> (\<forall>xs. \<forall>a < length h. arr ((snd g)[fst g := xs]) a = arr h a))"
  using alloc_fresh [of "get_tags h t" h "arr h (p_tags t)"]
    alloc_fresh [of "get_notes h t" h "arr h (p_notes t)"]
    alloc_fresh [of "get_dependencies h t" h "arr h (p_dependencies t)"]
  unfolding get_tags_def get_notes_def get_dependencies_def
  by simp


lemma toJSON_fresh_arrays:
  "j_tags (fst (toJSON h t)) = JRef (length h + 1)
     \<and> j_notes (fst (toJSON h t)) = JRef (length h + 3)
     \<and> j_dependencies (fst (toJSON h t)) = JRef (length h + 5)
     \<and> length (snd (toJSON h t)) = length h + 6
     \<and> (\<forall>a < length h. arr (snd (toJSON h t)) a = arr h a)
     \<and> (\<forall>xs. \<forall>b \<in> {length h + 1, length h + 3, length h + 5}.
           (\<forall>a < length h. arr ((snd (toJSON h t))[b := xs]) a = arr h a)
         \<and> (\<forall>c \<in> {length h + 1, length h + 3, length h + 5}.
               c \<noteq> b \<longrightarrow> arr ((snd (toJSON h t))[b := xs]) c = arr (snd (toJSON h t)) c))"
  using toJSON_fresh [of h t] by (simp add: arr_update_other)


lemma getters_detached:
  "task_in_heap h t \<longrightarrow>
         fst (get_tags h t) \<notin> {p_tags t, p_notes t, p_dependencies t}
       \<and> arr (snd (get_tags h t)) (fst (get_tags h t)) = arr h (p_tags t)
       \<and> collections (snd (get_tags h t)) t = collections h t
       \<and> (\<forall>xs. collections ((snd (get_tags h t))[fst (get_tags h t) := xs]) t = collections h t)
       \<and> fst (get_notes h t) \<notin> {p_tags t, p_notes t, p_dependencies t}
       \<and> arr (snd (get_notes h t)) (fst (get_notes h t)) = arr h (p_notes t)
       \<and> collections (snd (get_notes h t)) t = collections h t
       \<and> (\<forall>xs. collections ((snd (get_notes h t))[fst (get_notes h t) := xs]) t = collections h t)
       \<and> fst (get_dependencies h t) \<notin> {p_tags t, p_notes t, p_dependencies t}
       \<and> arr (snd (get_dependencies h t)) (fst (get_dependencies h t)) = arr h (p_dependencies t)
       \<and> collections (snd (get_dependencies h t)) t = collections h t
       \<and> (\<forall>xs. collections ((snd (get_dependencies h t))[fst (get_dependencies h t) := xs]) t
               = collections h t)
       \<and> (\<exists>a1 a2 a3.
             j_tags (fst (toJSON h t)) = JRef a1
           \<and> j_notes (fst (toJSON h t)) = JRef a2
           \<and> j_dependencies (fst (toJSON h t)) = JRef a3
           \<and> {a1, a2, a3} \<inter> {p_tags t, p_notes t, p_dependencies t} = {}
           \<and> arr (snd (toJSON h t)) a1 = arr h (p_tags t)
           \<and> arr (snd (toJSON h t)) a2 = arr h (p_notes t)
           \<and> arr (snd (toJSON h t)) a3 = arr h (p_dependencies t)
           \<and> collections (snd (toJSON h t)) t = collections h t
           \<and> (\<forall>xs. collections ((snd (toJSON h t))[a1 := xs]) t = collections h t
                 \<and> collections ((snd (toJSON h t))[a2 := xs]) t = collections h t
                 \<and> collections ((snd (toJSON h t))[a3 := xs]) t = collections h t))"
proof (intro impI)
  assume a: "task_in_heap h t"
  show "fst (get_tags h t) \<notin> {p_tags t, p_notes t, p_dependencies t}
       \<and> arr (snd (get_tags h t)) (fst (get_tags h t)) = arr h (p_tags t)
       \<and> collections (snd (get_tags h t)) t = collections h t
       \<and> (\<forall>xs. collections ((snd (get_tags h t))[fst (get_tags h t) := xs]) t = collections h t)
       \<and> fst (get_notes h t) \<notin> {p_tags t, p_notes t, p_dependencies t}
       \<and> arr (snd (get_notes h t)) (fst (get_notes h t)) = arr h (p_notes t)
       \<and> collections (snd (get_notes h t)) t = collections h t
       \<and> (\<forall>xs. collections ((snd (get_notes h t))[fst (get_notes h t) := xs]) t = collections h t)
       \<and> fst (get_dependencies h t) \<notin> {p_tags t, p_notes t, p_dependencies t}
       \<and> arr (snd (get_dependencies h t)) (fst (get_dependencies h t)) = arr h (p_dependencies t)
       \<and> collections (snd (get_dependencies h t)) t = collections h t
       \<and> (\<forall>xs. collections ((snd (get_dependencies h t))[fst (get_dependencies h t) := xs]) t
               = collections h t)
       \<and> (\<exists>a1 a2 a3.
             j_tags (fst (toJSON h t)) = JRef a1
           \<and> j_notes (fst (toJSON h t)) = JRef a2
           \<and> j_dependencies (fst (toJSON h t)) = JRef a3
           \<and> {a1, a2, a3} \<inter> {p_tags t, p_notes t, p_dependencies t} = {}
           \<and> arr (snd (toJSON h t)) a1 = arr h (p_tags t)
           \<and> arr (snd (toJSON h t)) a2 = arr h (p_notes t)
           \<and> arr (snd (toJSON h t)) a3 = arr h (p_dependencies t)
           \<and> collections (snd (toJSON h t)) t = collections h t
           \<and> (\<forall>xs. collections ((snd (toJSON h t))[a1 := xs]) t = collections h t
                 \<and> collections ((snd (toJSON h t))[a2 := xs]) t = collections h t
                 \<and> collections ((snd (toJSON h t))[a3 := xs]) t = collections h t))"
    using getter_copy [OF a, of "get_tags h t" "arr h (p_tags t)"]
      getter_copy [OF a, of "get_notes h t" "arr h (p_notes t)"]
      getter_copy [OF a, of "get_dependencies h t" "arr h (p_dependencies t)"]
      toJSON_copies [OF a]
    unfolding get_tags_def get_notes_def get_dependencies_def
    by blast
qed

text \<open>
  Claim C10. Each of the getters \<^verbatim>\<open>tags\<close>, \<^verbatim>\<open>notes\<close> and \<^verbatim>\<open>dependencies\<close>
  returns a new array: its address is the next free one, beyond every array of the heap,
  so it is no array of the task, of another task or of any caller, and every array that
  was in the heap is as before, also after anything is written to the returned array.
  So do the three arrays in the object \<^verbatim>\<open>toJSON\<close> returns, which are new and
  different from each other. The private arrays of a task are arrays of the heap: the
  constructor and \<^verbatim>\<open>fromJSON\<close> return such a task, and every mutator keeps it so. For
  such a task the returned array has the elements of the stored one, and whatever is
  written to a returned array afterwards, the stored collections of the task are what
  they were before the call.
\<close>

theorem getters_return_copies:
  "(fst (get_tags h t) = length h
     \<and> fst (get_notes h t) = length h
     \<and> fst (get_dependencies h t) = length h
     \<and> (\<forall>g \<in> {get_tags h t, get_notes h t, get_dependencies h t}.
           length (snd g) = Suc (length h)
         \<and> (\<forall>a < length h. arr (snd g) a = arr h a)
         \<and> (\<forall>xs. \<forall>a < length h. arr ((snd g)[fst g := xs]) a = arr h a)))
   \<and> (j_tags (fst (toJSON h t)) = JRef (length h + 1)
     \<and> j_notes (fst (toJSON h t)) = JRef (length h + 3)
     \<and> j_dependencies (fst (toJSON h t)) = JRef (length h + 5)
     \<and> length (snd (toJSON h t)) = length h + 6
     \<and> (\<forall>a < length h. arr (snd (toJSON h t)) a = arr h a)
     \<and> (\<forall>xs. \<forall>b \<in> {length h + 1, length h + 3, length h + 5}.
           (\<forall>a < length h. arr ((snd (toJSON h t))[b := xs]) a = arr h a)
         \<and> (\<forall>c \<in> {length h + 1, length h + 3, length h + 5}.
               c \<noteq> b \<longrightarrow> arr ((snd (toJSON h t))[b := xs]) c = arr (snd (toJSON h t)) c)))
   \<and> (Task_new rt0 h0 ttl descr uid opts = Inr (h1, t1) \<longrightarrow> task_in_heap h1 t1)
   \<and> (fromJSON rt0 h0 json = Inr (h2, t2) \<longrightarrow> task_in_heap h2 t2)
   \<and> (task_in_heap h t \<and> invoke rt m (h, t) = Inr (h', t') \<longrightarrow> task_in_heap h' t')
   \<and> (task_in_heap h t \<longrightarrow>
         fst (get_tags h t) \<notin> {p_tags t, p_notes t, p_dependencies t}
       \<and> arr (snd (get_tags h t)) (fst (get_tags h t)) = arr h (p_tags t)
       \<and> collections (snd (get_tags h t)) t = collections h t
       \<and> (\<forall>xs. collections ((snd (get_tags h t))[fst (get_tags h t) := xs]) t = collections h t)
       \<and> fst (get_notes h t) \<notin> {p_tags t, p_notes t, p_dependencies t}
       \<and> arr (snd (get_notes h t)) (fst (get_notes h t)) = arr h (p_notes t)
       \<and> collections (snd (get_notes h t)) t = collections h t
       \<and> (\<forall>xs. collections ((snd (get_notes h t))[fst (get_notes h t) := xs]) t = collections h t)
       \<and> fst (get_dependencies h t) \<notin> {p_tags t, p_notes t, p_dependencies t}
       \<and> arr (snd (get_dependencies h t)) (fst (get_dependencies h t)) = arr h (p_dependencies t)
       \<and> collections (snd (get_dependencies h t)) t = collections h t
       \<and> (\<forall>xs. collections ((snd (get_dependencies h t))[fst (get_dependencies h t) := xs]) t
               = collections h t)
       \<and> (\<exists>a1 a2 a3.
             j_tags (fst (toJSON h t)) = JRef a1
           \<and> j_notes (fst (toJSON h t)) = JRef a2
           \<and> j_dependencies (fst (toJSON h t)) = JRef a3
           \<and> {a1, a2, a3} \<inter> {p_tags t, p_notes t, p_dependencies t} = {}
           \<and> arr (snd (toJSON h t)) a1 = arr h (p_tags t)
           \<and> arr (snd (toJSON h t)) a2 = arr h (p_notes t)
           \<and> arr (snd (toJSON h t)) a3 = arr h (p_dependencies t)
           \<and> collections (snd (toJSON h t)) t = collections h t
           \<and> (\<forall>xs. collections ((snd (toJSON h t))[a1 := xs]) t = collections h t
                 \<and> collections ((snd (toJSON h t))[a2 := xs]) t = collections h t
                 \<and> collections ((snd (toJSON h t))[a3 := xs]) t = collections h t)))"
proof -
  have r1: "Task_new rt0 h0 ttl descr uid opts = Inr (h1, t1) \<longrightarrow> task_in_heap h1 t1"
    using in_heap_Task_new by blast
  have r2: "fromJSON rt0 h0 json = Inr (h2, t2) \<longrightarrow> task_in_heap h2 t2"
    using in_heap_fromJSON by blast
  have r3: "task_in_heap h t \<and> invoke rt m (h, t) = Inr (h', t') \<longrightarrow> task_in_heap h' t'"
    using in_heap_invoke by blast
  show ?thesis
    by (rule conjI [OF getters_fresh conjI [OF toJSON_fresh_arrays
          conjI [OF r1 conjI [OF r2 conjI [OF r3 getters_detached]]]]])
qed

theorem getters_return_copies_witness:
  "Task_new example_runtime [] (JStr ''Write spec'') JUndefined (JStr ''u1'') no_options
     = Inr (example_heap, example_task)
   \<and> task_in_heap example_heap example_task
   \<and> invoke later_runtime (AddTag (JStr ''Home'')) (example_heap, example_task)
       = Inr ([[JStr ''home''], [], []], example_task\<lparr> updatedAt := JDate (Some 2000) \<rparr>)
   \<and> task_in_heap [[JStr ''home''], [], []] (example_task\<lparr> updatedAt := JDate (Some 2000) \<rparr>)
   \<and> get_tags [[JStr ''home''], [], [], [JStr ''other'']]
         (example_task\<lparr> updatedAt := JDate (Some 2000) \<rparr>)
       = (4, [[JStr ''home''], [], [], [JStr ''other''], [JStr ''home'']])
   \<and> collections ([[JStr ''home''], [], [], [JStr ''other''], [JStr ''home'']][4 := [JStr ''x'']])
        (example_task\<lparr> updatedAt := JDate (Some 2000) \<rparr>)
       = ([JStr ''home''], [], [])
   \<and> arr ([[JStr ''home''], [], [], [JStr ''other''], [JStr ''home'']][4 := [JStr ''x'']]) 3
       = [JStr ''other'']"
proof -
  let ?h = "[[JStr ''home''], [], []]"
  let ?k = "[[JStr ''home''], [], [], [JStr ''other'']]"
  let ?t = "example_task\<lparr> updatedAt := JDate (Some 2000) \<rparr>"
  have 1: "Task_new example_runtime [] (JStr ''Write spec'') JUndefined (JStr ''u1'') no_options
     = Inr (example_heap, example_task)"
    by code_simp
  have 2: "invoke later_runtime (AddTag (JStr ''Home'')) (example_heap, example_task) = Inr (?h, ?t)"
    by code_simp
  from 1 getters_return_copies
    [where ?rt0.0 = example_runtime and ?h0.0 = "[]" and ttl = "JStr ''Write spec''"
       and descr = JUndefined and uid = "JStr ''u1''" and opts = no_options
       and ?h1.0 = example_heap and ?t1.0 = example_task]
  have 3: "task_in_heap example_heap example_task" by blast
  from 2 3 getters_return_copies
    [where h = example_heap and t = example_task and rt = later_runtime
       and m = "AddTag (JStr ''Home'')" and h' = ?h and t' = ?t]
  have 4: "task_in_heap ?h ?t" by blast
  have 5: "task_in_heap ?k ?t"
    by (simp add: task_in_heap_def example_task_def)
  have 6: "get_tags ?k ?t = (4, [[JStr ''home''], [], [], [JStr ''other''], [JStr ''home'']])"
    by (simp add: get_tags_def alloc_def arr_def example_task_def)
  have 7: "collections ?k ?t = ([JStr ''home''], [], [])"
    by (simp add: collections_def arr_def example_task_def)
  have 8: "arr ?k 3 = [JStr ''other'']"
    by (simp add: arr_def)
  from 5 getters_return_copies [where h = ?k and t = ?t]
  have 9: "collections ((snd (get_tags ?k ?t))[fst (get_tags ?k ?t) := [JStr ''x'']]) ?t
          = collections ?k ?t"
    by blast
  have b: "\<forall>g \<in> {get_tags ?k ?t, get_notes ?k ?t, get_dependencies ?k ?t}.
           length (snd g) = Suc (length ?k)
         \<and> (\<forall>a < length ?k. arr (snd g) a = arr ?k a)
         \<and> (\<forall>xs. \<forall>a < length ?k. arr ((snd g)[fst g := xs]) a = arr ?k a)"
    by (rule getters_return_copies [where h = ?k and t = ?t,
          THEN conjunct1, THEN conjunct2, THEN conjunct2, THEN conjunct2])
  then have c: "\<forall>xs. \<forall>a < length ?k.
      arr ((snd (get_tags ?k ?t))[fst (get_tags ?k ?t) := xs]) a = arr ?k a"
    by blast
  have "(3::nat) < length ?k" by simp
  with c have 10: "arr ((snd (get_tags ?k ?t))[fst (get_tags ?k ?t) := [JStr ''x'']]) 3 = arr ?k 3"
    by blast
  from 1 2 3 4 6 7 8 9 10 show ?thesis by simp
qed

section \<open>Properties of the repositories\<close>

text \<open>
  Claim C3 at the stored example task and the fields \<^verbatim>\<open>{title: '', priority: 'bogus',
  status: 'done'}\<close>, in a repository without listeners: \<^verbatim>\<open>update\<close> copies them onto
  the task with \<^verbatim>\<open>Object.assign\<close> and returns the task, which now holds the empty title
  and the two values outside their enumerations. The mutators \<^verbatim>\<open>updateTitle\<close>,
  \<^verbatim>\<open>updatePriority\<close> and \<^verbatim>\<open>setStatus\<close> reject the same three values.
\<close>

theorem update_stores_invalid_fields:
  "update later_runtime quiet_callback (JStr ''task_1000_abc'')
      [(F_title, JStr []), (F_priority, JStr ''bogus''), (F_status, JStr ''done'')]
      (example_heap, example_objects, example_repository)
    = (Inr (Some 0),
       (example_heap,
        example_objects
          (0 := example_task\<lparr> title := JStr [], priority := JStr ''bogus'',
                             status := JStr ''done'', updatedAt := JDate (Some 2000) \<rparr>),
        example_repository))
   \<and> updateTitle later_runtime (JStr []) (example_heap, example_task)
       = Inl (Error ''Task title cannot be empty'')
   \<and> updatePriority later_runtime (JStr ''bogus'') (example_heap, example_task)
       = Inl (Error ''Invalid priority'')
   \<and> setStatus later_runtime (JStr ''done'') (example_heap, example_task)
       = Inl (Error ''Invalid status'')"
proof (intro conjI)
  show "update later_runtime quiet_callback (JStr ''task_1000_abc'')
      [(F_title, JStr []), (F_priority, JStr ''bogus''), (F_status, JStr ''done'')]
      (example_heap, example_objects, example_repository)
    = (Inr (Some 0),
       (example_heap,
        example_objects
          (0 := example_task\<lparr> title := JStr [], priority := JStr ''bogus'',
                             status := JStr ''done'', updatedAt := JDate (Some 2000) \<rparr>),
        example_repository))"
    by (simp add: update_def emit_def save_and_return_def example_repository_def
          example_objects_def date_now_def Let_def later_runtime_def example_runtime_def)
qed code_simp+


lemma without_lookup: "map_of (without i ts) k = (if k = i then None else map_of ts k)"
  by (induction ts) (auto simp: without_def)


text \<open>
  Claim C8, as the code has it. \<^verbatim>\<open>deleteTask\<close> of \<^verbatim>\<open>task-repository.js\<close> throws
  \<open>Task not found\<close> for an id that is not in the index and leaves everything as it
  was. For an id that is in the index it removes the task from the index and calls the
  listeners of \<open>taskDeleted\<close>; there are none unless one was registered. If a listener
  throws, \<^verbatim>\<open>deleteTask\<close> throws that error, with the task removed. Otherwise, without
  a storage it returns the removed task; with a storage it saves the tasks that are left
  and returns the removed task if \<^verbatim>\<open>save\<close> returns, and throws
  \<open>Failed to save to storage\<close> with the message of the error if \<^verbatim>\<open>save\<close> throws.
  \<^verbatim>\<open>delete\<close> of the simplified repository returns whether the id was in the index,
  removes it, and never throws.
\<close>

theorem deleteTask_throws_when_missing:
  "(map_of (tasks r) i = None \<longrightarrow>
      deleteTask call i (h, objs, r) = (Inl (Error ''Task not found''), (h, objs, r)))
   \<and> (map_of (tasks r) i = Some a \<longrightarrow>
        map_of (without i (tasks r)) i = None
      \<and> (\<forall>k. k \<noteq> i \<longrightarrow> map_of (without i (tasks r)) k = map_of (tasks r) k)
      \<and> (map_of (listeners r) ''taskDeleted'' \<in> {None, Some []} \<longrightarrow>
           emit call ''taskDeleted'' (TaskDeleted i a) (h, objs, r\<lparr> tasks := without i (tasks r) \<rparr>)
             = (None, (h, objs, r\<lparr> tasks := without i (tasks r) \<rparr>)))
      \<and> (\<forall>l ls e w. map_of (listeners r) ''taskDeleted'' = Some (l # ls)
             \<and> call l (TaskDeleted i a) (h, objs, r\<lparr> tasks := without i (tasks r) \<rparr>) = (Some e, w)
           \<longrightarrow> deleteTask call i (h, objs, r) = (Inl e, w))
      \<and> (\<forall>e w. emit call ''taskDeleted'' (TaskDeleted i a)
                  (h, objs, r\<lparr> tasks := without i (tasks r) \<rparr>) = (Some e, w)
           \<longrightarrow> deleteTask call i (h, objs, r) = (Inl e, w))
      \<and> (\<forall>h1 objs1 r1. emit call ''taskDeleted'' (TaskDeleted i a)
                  (h, objs, r\<lparr> tasks := without i (tasks r) \<rparr>) = (None, (h1, objs1, r1))
           \<longrightarrow> (storage r1 = None \<longrightarrow>
                  deleteTask call i (h, objs, r) = (Inr a, (h1, objs1, r1)))
             \<and> (\<forall>save. storage r1 = Some save \<longrightarrow>
                   (save (fst (toJSON_all h1 (map (\<lambda>p. objs1 (snd p)) (tasks r1)))) = None \<longrightarrow>
                      deleteTask call i (h, objs, r)
                        = (Inr a, (snd (toJSON_all h1 (map (\<lambda>p. objs1 (snd p)) (tasks r1))),
                                   objs1, r1)))
                 \<and> (\<forall>msg. save (fst (toJSON_all h1 (map (\<lambda>p. objs1 (snd p)) (tasks r1))))
                             = Some msg \<longrightarrow>
                      deleteTask call i (h, objs, r)
                        = (Inl (Error (''Failed to save to storage: '' @ msg)),
                           (snd (toJSON_all h1 (map (\<lambda>p. objs1 (snd p)) (tasks r1))),
                            objs1, r1))))))
   \<and> simple_delete i s
       = (if map_of (s_tasks s) i \<noteq> None
          then (True, s\<lparr> s_tasks := without i (s_tasks s), s_saves := Suc (s_saves s) \<rparr>)
          else (False, s))
   \<and> fst (simple_delete i s) = (map_of (s_tasks s) i \<noteq> None)
   \<and> map_of (s_tasks (snd (simple_delete i s))) i = None"
  by (auto simp: deleteTask_def emit_def save_and_return_def simple_delete_def saveToStorage_def
        without_lookup Let_def split: option.splits prod.splits sum.splits)


theorem deleteTask_throws_when_missing_witness:
  "deleteTask quiet_callback (JStr ''nope'') (example_heap, example_objects, example_repository)
     = (Inl (Error ''Task not found''), (example_heap, example_objects, example_repository))
   \<and> deleteTask quiet_callback (JStr ''task_1000_abc'')
       (example_heap, example_objects, example_repository)
     = (Inr 0, (example_heap, example_objects, example_repository\<lparr> tasks := [] \<rparr>))
   \<and> deleteTask throwing_callback (JStr ''task_1000_abc'')
       (example_heap, example_objects,
        example_repository\<lparr> listeners := [(''taskDeleted'', [()])] \<rparr>)
     = (Inl (Error ''listener failed''),
        (example_heap, example_objects,
         example_repository\<lparr> tasks := [], listeners := [(''taskDeleted'', [()])] \<rparr>))
   \<and> deleteTask quiet_callback (JStr ''task_1000_abc'')
       (example_heap, example_objects, example_repository\<lparr> storage := Some full_storage \<rparr>)
     = (Inl (Error ''Failed to save to storage: quota exceeded''),
        (example_heap, example_objects,
         example_repository\<lparr> tasks := [], storage := Some full_storage \<rparr>))
   \<and> deleteTask quiet_callback (JStr ''task_1000_abc'')
       (example_heap, example_objects, example_repository\<lparr> storage := Some good_storage \<rparr>)
     = (Inr 0,
        (example_heap, example_objects,
         example_repository\<lparr> tasks := [], storage := Some good_storage \<rparr>))
   \<and> fst (simple_delete (JStr ''nope'') \<lparr> s_tasks = [(JStr ''a'', ())], s_saves = 0 \<rparr>) = False
   \<and> fst (simple_delete (JStr ''a'') \<lparr> s_tasks = [(JStr ''a'', ())], s_saves = 0 \<rparr>) = True"
proof -
  let ?s = "\<lparr> s_tasks = [(JStr ''a'', ())], s_saves = 0 \<rparr>"
  let ?i = "JStr ''task_1000_abc''"
  let ?rl = "example_repository\<lparr> listeners := [(''taskDeleted'', [()])] \<rparr>"
  let ?rf = "example_repository\<lparr> storage := Some full_storage \<rparr>"
  let ?rg = "example_repository\<lparr> storage := Some good_storage \<rparr>"
  have w: "without ?i [(?i, 0 :: tref)] = []"
    by (simp add: without_def)
  have t: "tasks example_repository = [(?i, 0)]" "tasks ?rl = [(?i, 0)]"
    "tasks ?rf = [(?i, 0)]" "tasks ?rg = [(?i, 0)]"
    by (simp_all add: example_repository_def)
  have 1: "deleteTask quiet_callback (JStr ''nope'')
             (example_heap, example_objects, example_repository)
     = (Inl (Error ''Task not found''), (example_heap, example_objects, example_repository))"
    using deleteTask_throws_when_missing
      [where r = example_repository and i = "JStr ''nope''" and call = quiet_callback
         and h = example_heap and objs = example_objects and s = ?s]
    by (simp add: t)
  have e2: "emit quiet_callback ''taskDeleted'' (TaskDeleted ?i 0)
              (example_heap, example_objects,
               example_repository\<lparr> tasks := without ?i (tasks example_repository) \<rparr>)
            = (None, (example_heap, example_objects,
               example_repository\<lparr> tasks := without ?i (tasks example_repository) \<rparr>))"
  proof -
    have "map_of (listeners example_repository) ''taskDeleted'' \<in> {None, Some []}"
      by (simp add: example_repository_def)
    moreover have "map_of (tasks example_repository) ?i = Some 0"
      by (simp add: example_repository_def)
    ultimately show ?thesis
      using deleteTask_throws_when_missing
        [where r = example_repository and i = ?i and a = 0 and call = quiet_callback
           and h = example_heap and objs = example_objects and s = ?s]
      by blast
  qed
  have 2: "deleteTask quiet_callback ?i (example_heap, example_objects, example_repository)
     = (Inr 0, (example_heap, example_objects, example_repository\<lparr> tasks := [] \<rparr>))"
  proof -
    let ?r1 = "example_repository\<lparr> tasks := without ?i (tasks example_repository) \<rparr>"
    have m: "map_of (tasks example_repository) ?i = Some 0"
      by (simp add: example_repository_def)
    have s: "storage ?r1 = None"
      by (simp add: example_repository_def)
    from m s e2 deleteTask_throws_when_missing
      [where r = example_repository and i = ?i and a = 0 and call = quiet_callback
         and h = example_heap and objs = example_objects and s = ?s]
    have "deleteTask quiet_callback ?i (example_heap, example_objects, example_repository)
       = (Inr 0, (example_heap, example_objects, ?r1))"
      by blast
    then show ?thesis by (simp add: t w)
  qed
  have 3: "deleteTask throwing_callback ?i (example_heap, example_objects, ?rl)
     = (Inl (Error ''listener failed''),
        (example_heap, example_objects, ?rl\<lparr> tasks := [] \<rparr>))"
  proof -
    have l: "map_of (listeners ?rl) ''taskDeleted'' = Some [()]"
      by simp
    have c: "throwing_callback () (TaskDeleted ?i 0)
               (example_heap, example_objects, ?rl\<lparr> tasks := without ?i (tasks ?rl) \<rparr>)
             = (Some (Error ''listener failed''),
                (example_heap, example_objects, ?rl\<lparr> tasks := without ?i (tasks ?rl) \<rparr>))"
      by (simp add: throwing_callback_def)
    have m: "map_of (tasks ?rl) ?i = Some 0"
      by (simp add: example_repository_def)
    from l c m deleteTask_throws_when_missing
      [where r = ?rl and i = ?i and a = 0 and call = throwing_callback
         and h = example_heap and objs = example_objects and s = ?s]
    have "deleteTask throwing_callback ?i (example_heap, example_objects, ?rl)
       = (Inl (Error ''listener failed''),
          (example_heap, example_objects, ?rl\<lparr> tasks := without ?i (tasks ?rl) \<rparr>))"
      by blast
    then show ?thesis by (simp add: t w)
  qed
  have ef: "emit quiet_callback ''taskDeleted'' (TaskDeleted ?i 0)
              (example_heap, example_objects, ?rf\<lparr> tasks := without ?i (tasks ?rf) \<rparr>)
            = (None, (example_heap, example_objects, ?rf\<lparr> tasks := without ?i (tasks ?rf) \<rparr>))"
  proof -
    have "map_of (listeners ?rf) ''taskDeleted'' \<in> {None, Some []}"
      by (simp add: example_repository_def)
    moreover have "map_of (tasks ?rf) ?i = Some 0"
      by (simp add: example_repository_def)
    ultimately show ?thesis
      using deleteTask_throws_when_missing
        [where r = ?rf and i = ?i and a = 0 and call = quiet_callback
           and h = example_heap and objs = example_objects and s = ?s]
      by blast
  qed
  have 4: "deleteTask quiet_callback ?i (example_heap, example_objects, ?rf)
     = (Inl (Error ''Failed to save to storage: quota exceeded''),
        (example_heap, example_objects, ?rf\<lparr> tasks := [] \<rparr>))"
  proof -
    let ?r1 = "?rf\<lparr> tasks := without ?i (tasks ?rf) \<rparr>"
    have m: "map_of (tasks ?rf) ?i = Some 0"
      by (simp add: example_repository_def)
    have s: "storage ?r1 = Some full_storage" by simp
    have d: "toJSON_all example_heap (map (\<lambda>p. example_objects (snd p)) (tasks ?r1))
               = ([], example_heap)"
      by (simp add: t w)
    have f: "full_storage (fst (toJSON_all example_heap
               (map (\<lambda>p. example_objects (snd p)) (tasks ?r1)))) = Some ''quota exceeded''"
      by (simp add: full_storage_def)
    from m s f ef deleteTask_throws_when_missing
      [where r = ?rf and i = ?i and a = 0 and call = quiet_callback
         and h = example_heap and objs = example_objects and s = ?s]
    have "deleteTask quiet_callback ?i (example_heap, example_objects, ?rf)
       = (Inl (Error (''Failed to save to storage: '' @ ''quota exceeded'')),
          (snd (toJSON_all example_heap (map (\<lambda>p. example_objects (snd p)) (tasks ?r1))),
           example_objects, ?r1))"
      by blast
    then show ?thesis by (simp add: d) (simp add: w t)
  qed
  have eg: "emit quiet_callback ''taskDeleted'' (TaskDeleted ?i 0)
              (example_heap, example_objects, ?rg\<lparr> tasks := without ?i (tasks ?rg) \<rparr>)
            = (None, (example_heap, example_objects, ?rg\<lparr> tasks := without ?i (tasks ?rg) \<rparr>))"
  proof -
    have "map_of (listeners ?rg) ''taskDeleted'' \<in> {None, Some []}"
      by (simp add: example_repository_def)
    moreover have "map_of (tasks ?rg) ?i = Some 0"
      by (simp add: example_repository_def)
    ultimately show ?thesis
      using deleteTask_throws_when_missing
        [where r = ?rg and i = ?i and a = 0 and call = quiet_callback
           and h = example_heap and objs = example_objects and s = ?s]
      by blast
  qed
  have 5: "deleteTask quiet_callback ?i (example_heap, example_objects, ?rg)
     = (Inr 0, (example_heap, example_objects, ?rg\<lparr> tasks := [] \<rparr>))"
  proof -
    let ?r1 = "?rg\<lparr> tasks := without ?i (tasks ?rg) \<rparr>"
    have m: "map_of (tasks ?rg) ?i = Some 0"
      by (simp add: example_repository_def)
    have s: "storage ?r1 = Some good_storage" by simp
    have d: "toJSON_all example_heap (map (\<lambda>p. example_objects (snd p)) (tasks ?r1))
               = ([], example_heap)"
      by (simp add: t w)
    have f: "good_storage (fst (toJSON_all example_heap
               (map (\<lambda>p. example_objects (snd p)) (tasks ?r1)))) = None"
      by (simp add: good_storage_def)
    from m s f eg deleteTask_throws_when_missing
      [where r = ?rg and i = ?i and a = 0 and call = quiet_callback
         and h = example_heap and objs = example_objects and s = ?s]
    have "deleteTask quiet_callback ?i (example_heap, example_objects, ?rg)
       = (Inr 0,
          (snd (toJSON_all example_heap (map (\<lambda>p. example_objects (snd p)) (tasks ?r1))),
           example_objects, ?r1))"
      by blast
    then show ?thesis by (simp add: d) (simp add: w t)
  qed
  have 6: "fst (simple_delete (JStr ''nope'') ?s) = False"
    using deleteTask_throws_when_missing
      [where s = ?s and i = "JStr ''nope''" and r = example_repository and call = quiet_callback
         and h = example_heap and objs = example_objects]
    by simp
  have 7: "fst (simple_delete (JStr ''a'') ?s) = True"
    using deleteTask_throws_when_missing
      [where s = ?s and i = "JStr ''a''" and r = example_repository and call = quiet_callback
         and h = example_heap and objs = example_objects]
    by simp
  from 1 2 3 4 5 6 7 show ?thesis by simp
qed

theorem deleteTask_missing_id_counterexample:
  "deleteTask quiet_callback (JStr ''nope'') (example_heap, example_objects, example_repository)
     = (Inl (Error ''Task not found''), (example_heap, example_objects, example_repository))"
  by (simp add: deleteTask_def example_repository_def)

end
